theory Spec2Isabelle
  imports
    Main
    "HOL-Library.Char_ord"
    "HOL-Library.List_Lexorder"
    "HOL-Library.Product_Lexorder"
    "HOL-Library.Multiset"
begin

section \<open>Python values used by the application\<close>

text \<open>
  A Python \<open>str\<close> is modelled as a \<open>string\<close>; a \<open>char\<close> stands for a code
  point below 256, which is all an HTTP header value can hold (\<open>requests\<close> decodes
  header bytes as Latin-1).  Python's \<open>int\<close> is \<open>int\<close>.  Every exception the
  modelled code can raise is a constructor of \<open>error\<close>, and a function that may raise
  returns \<open>error + 'a\<close> with the exception on the left.
\<close>

datatype error =
    ValueError
  | OverflowError
  | OSError
  | KeyError string
  | HTTPError int
  | RequestException
  | JSONDecodeError

subsection \<open>\<open>int(s)\<close> on a string\<close>

text \<open>
  \<open>int(s)\<close> in base 10 skips white space at both ends, reads one optional sign and then
  decimal digits, between which single underscores may stand; anything else raises
  \<open>ValueError\<close> (\<open>None\<close> here).  The white space it skips is the C locale's
  (tab, line feed, vertical tab, form feed, carriage return, space) and, of the code
  points from 128 to 255, the two Unicode spaces U+0085 and U+00A0.  CPython refuses to
  convert an integer of more than 4300 decimal digits to or from a string
  (\<open>sys.int_max_str_digits\<close>) and raises \<open>ValueError\<close> for it as well.
\<close>

definition INT_MAX_STR_DIGITS :: nat where
  "INT_MAX_STR_DIGITS = 4300"

definition int_space :: "char \<Rightarrow> bool" where
  "int_space c = (of_char c \<in> {9, 10, 11, 12, 13, 32, 133, 160 :: nat})"

definition digit_val :: "char \<Rightarrow> nat option" where
  "digit_val c =
     (if (48::nat) \<le> of_char c \<and> of_char c \<le> (57::nat) then Some (of_char c - 48) else None)"

fun parse_digits :: "int \<Rightarrow> string \<Rightarrow> int option" where
  "parse_digits acc [] = Some acc"
| "parse_digits acc (c # cs) =
     (if c = CHR ''_'' then
        (case cs of
           [] \<Rightarrow> None
         | d # ds \<Rightarrow>
             (case digit_val d of
                None \<Rightarrow> None
              | Some v \<Rightarrow> parse_digits (10 * acc + int v) ds))
      else
        (case digit_val c of
           None \<Rightarrow> None
         | Some v \<Rightarrow> parse_digits (10 * acc + int v) cs))"

definition parse_unsigned :: "string \<Rightarrow> int option" where
  "parse_unsigned s =
     (if INT_MAX_STR_DIGITS < length (filter (\<lambda>c. c \<noteq> CHR ''_'') s) then None
      else
        (case s of
           [] \<Rightarrow> None
         | c # cs \<Rightarrow>
             (case digit_val c of
                None \<Rightarrow> None
              | Some v \<Rightarrow> parse_digits (int v) cs)))"

definition py_int :: "string \<Rightarrow> int option" where
  "py_int s =
     (let t = rev (dropWhile int_space (rev (dropWhile int_space s)))
      in case t of
           [] \<Rightarrow> None
         | c # cs \<Rightarrow>
             if c = CHR ''+'' then parse_unsigned cs
             else if c = CHR ''-'' then map_option uminus (parse_unsigned cs)
             else parse_unsigned t)"

subsection \<open>\<open>time.sleep\<close>\<close>

text \<open>
  \<open>time.sleep(secs)\<close> with an integer first converts the seconds to nanoseconds in a
  signed 64-bit integer and raises \<open>OverflowError\<close> when they do not fit, which is the
  case beyond \<open>SLEEP_MAX\<close> seconds in either direction.  It then raises \<open>ValueError\<close>
  for a negative length.  Otherwise it asks the operating system to suspend the caller
  until the monotonic clock has advanced by that length; the system can refuse, for
  instance when that deadline is beyond the range of the clock, and the call then
  raises \<open>OSError\<close>.  Whether the system carries a sleep out depends on its clock at
  the moment of the call, so it is a parameter of the model: \<open>sys secs\<close> says that a
  sleep of \<open>secs\<close> seconds is carried out.
\<close>

definition SLEEP_MAX :: int where
  "SLEEP_MAX = (2 ^ 63 - 1) div 10 ^ 9"

type_synonym system = "int \<Rightarrow> bool"

definition time_sleep :: "system \<Rightarrow> int \<Rightarrow> error + unit" where
  "time_sleep sys secs =
     (if secs < - SLEEP_MAX \<or> SLEEP_MAX < secs then Inl OverflowError
      else if secs < 0 then Inl ValueError
      else if sys secs then Inr ()
      else Inl OSError)"

section \<open>Transport client: \<open>run_wdqs\<close>\<close>

text \<open>
  The body of a response is modelled in the shape the query service documents: a JSON
  object whose member \<open>results\<close> has a member \<open>bindings\<close>, a list of rows; a row maps a
  variable name to an object with (among others) a member \<open>value\<close>.  Objects are maps,
  a missing member is \<open>None\<close>.  A body that is not JSON is \<open>None\<close>.
\<close>

type_synonym binding = "string \<rightharpoonup> (string \<rightharpoonup> string)"

type_synonym document = "string \<rightharpoonup> (string \<rightharpoonup> binding list)"

record response =
  status_code :: int
  headers :: "string \<rightharpoonup> string"
  body :: "document option"

text \<open>
  \<open>requests.get\<close> either raises (connection failure, timeout after 60 seconds) or
  returns a response.  The remote service is a function from the number of requests
  already made and the query text to that outcome, so the model is deterministic and
  covers every behaviour of the service.
\<close>

datatype outcome = Raises | Returns response

type_synonym service = "nat \<Rightarrow> string \<Rightarrow> outcome"

text \<open>What the caller does to the outside world, in order.\<close>

datatype event = Get string | Sleep int

fun is_Get :: "event \<Rightarrow> bool" where
  "is_Get (Get q) = True"
| "is_Get (Sleep d) = False"

fun is_Sleep :: "event \<Rightarrow> bool" where
  "is_Sleep (Get q) = False"
| "is_Sleep (Sleep d) = True"

text \<open>
  \<open>r.headers\<close> is a case-insensitive dictionary: it is keyed by the lower-cased field
  name, and \<open>get\<close> lower-cases the key it is asked for.
\<close>

definition ascii_lower :: "char \<Rightarrow> char" where
  "ascii_lower c =
     (case map_of (zip ''ABCDEFGHIJKLMNOPQRSTUVWXYZ'' ''abcdefghijklmnopqrstuvwxyz'') c of
        None \<Rightarrow> c
      | Some l \<Rightarrow> l)"

definition headers_get :: "response \<Rightarrow> string \<Rightarrow> string \<Rightarrow> string" where
  "headers_get r k dflt = (case headers r (map ascii_lower k) of None \<Rightarrow> dflt | Some v \<Rightarrow> v)"

text \<open>\<open>int(r.headers.get("Retry-After", "5"))\<close>\<close>

definition retry_after :: "response \<Rightarrow> error + int" where
  "retry_after r =
     (case py_int (headers_get r ''Retry-After'' ''5'') of
        None \<Rightarrow> Inl ValueError
      | Some d \<Rightarrow> Inr d)"

text \<open>
  \<open>r.raise_for_status()\<close> raises for the statuses 400 to 599 and for no other;
  \<open>r.json()\<close> raises when the body is not JSON.
\<close>

definition raise_for_status :: "response \<Rightarrow> error + unit" where
  "raise_for_status r =
     (if 400 \<le> status_code r \<and> status_code r < 600 then Inl (HTTPError (status_code r))
      else Inr ())"

definition json :: "response \<Rightarrow> error + document" where
  "json r = (case body r of None \<Rightarrow> Inl JSONDecodeError | Some d \<Rightarrow> Inr d)"

definition finish :: "response \<Rightarrow> error + document" where
  "finish r = (case raise_for_status r of Inl e \<Rightarrow> Inl e | Inr u \<Rightarrow> json r)"

text \<open>
  \<open>run_wdqs\<close> returns the result of the call (the exception or the decoded document)
  together with the events it caused: a request is an event whether it is answered or
  not, a sleep is one when it was carried out.
\<close>

definition run_wdqs ::
  "service \<Rightarrow> system \<Rightarrow> string \<Rightarrow> (error + document) \<times> event list" where
  "run_wdqs srv sys query =
     (case srv 0 query of
        Raises \<Rightarrow> (Inl RequestException, [Get query])
      | Returns r \<Rightarrow>
          if status_code r = 429 then
            (case retry_after r of
               Inl e \<Rightarrow> (Inl e, [Get query])
             | Inr d \<Rightarrow>
                 (case time_sleep sys d of
                    Inl e \<Rightarrow> (Inl e, [Get query])
                  | Inr u \<Rightarrow>
                      (case srv 1 query of
                         Raises \<Rightarrow> (Inl RequestException, [Get query, Sleep d, Get query])
                       | Returns r2 \<Rightarrow> (finish r2, [Get query, Sleep d, Get query]))))
          else (finish r, [Get query]))"

definition requests_made :: "(error + document) \<times> event list \<Rightarrow> nat" where
  "requests_made res = length (filter is_Get (snd res))"

subsection \<open>Services used as concrete inputs\<close>

definition too_many :: "string option \<Rightarrow> response" where
  "too_many h =
     \<lparr>status_code = 429,
      headers = (case h of None \<Rightarrow> Map.empty | Some v \<Rightarrow> [''retry-after'' \<mapsto> v]),
      body = None\<rparr>"

definition always :: "response \<Rightarrow> service" where
  "always r = (\<lambda>n q. Returns r)"

definition dated :: service where
  "dated = always (too_many (Some ''Wed, 21 Oct 2026 07:28:00 GMT''))"

definition vague :: service where
  "vague = always (too_many (Some ''soon''))"

definition awake :: system where
  "awake secs = True"

section \<open>Query builder\<close>

subsection \<open>\<open>str(n)\<close> of an integer and \<open>sep.join(xs)\<close>\<close>

text \<open>
  An f-string field \<open>{LIMIT}\<close> is \<open>str(LIMIT)\<close>, the decimal numeral of the integer.
  An integer of more than \<open>INT_MAX_STR_DIGITS\<close> digits raises \<open>ValueError\<close>.
\<close>

definition digit_char :: "nat \<Rightarrow> char" where
  "digit_char d = ''0123456789'' ! d"

function decimal :: "nat \<Rightarrow> string" where
  "decimal n = (if n < 10 then [digit_char n] else decimal (n div 10) @ [digit_char (n mod 10)])"
  by pat_completeness auto
termination
  by (relation "measure id") auto

definition py_str :: "int \<Rightarrow> error + string" where
  "py_str n =
     (if INT_MAX_STR_DIGITS < length (decimal (nat \<bar>n\<bar>)) then Inl ValueError
      else Inr (if n < 0 then CHR ''-'' # decimal (nat (- n)) else decimal (nat n)))"

fun py_join :: "string \<Rightarrow> string list \<Rightarrow> string" where
  "py_join sep [] = []"
| "py_join sep [x] = x"
| "py_join sep (x # y # ys) = x @ sep @ py_join sep (y # ys)"

definition startswith :: "string \<Rightarrow> string \<Rightarrow> bool" where
  "startswith s p = (take (length p) s = p)"

subsection \<open>The two query templates\<close>

text \<open>
  Each template is the text of the source's f-string, line by line (the text is the
  lines joined by line feeds; it starts and ends with a line feed), with the doubled
  braces of the f-string written as the single braces they stand for.  The only field is
  \<open>{LIMIT}\<close>, so the templates are functions of the numeral put there.
\<close>

definition onto_vocab_head :: "string list" where
  \<open>onto_vocab_head =
     [
      '''',
      ''SELECT'',
      ''  ?item'',
      ''  ?itemLabel'',
      ''  (GROUP_CONCAT(DISTINCT STR(?officialWebsite); separator=" | ") AS ?officialWebsites)'',
      ''  (GROUP_CONCAT(DISTINCT ?licenseLabel; separator=" | ") AS ?licenses)'',
      ''  (GROUP_CONCAT(DISTINCT ?partOfLabel; separator=" | ") AS ?partOf)'',
      ''WHERE {'',
      ''  SERVICE wikibase:label { bd:serviceParam wikibase:language "[AUTO_LANGUAGE],mul,en". }'',
      '''',
      ''  {'',
      ''    SELECT DISTINCT ?item WHERE {'',
      ''      {'',
      ''        ?item p:P31 ?statement0 .'',
      ''        ?statement0 (ps:P31/(wdt:P279*)) wd:Q324254 .  # ontology'',
      ''      }'',
      ''      UNION'',
      ''      {'',
      ''        ?item p:P31 ?statement1 .'',
      ''        ?statement1 (ps:P31/(wdt:P279*)) wd:Q1469824 . # controlled vocabulary'',
      ''      }'',
      ''      UNION'',
      ''      {'',
      ''        ?item p:P31 ?statement2 .'',
      ''        ?statement2 (ps:P31/(wdt:P279*)) wd:Q8269924 .  # taxonomy  <-- add this'',
      ''      }'',
      ''    }''
     ]\<close>

definition onto_vocab_tail :: "string list" where
  \<open>onto_vocab_tail =
     [
      ''  }'',
      '''',
      ''  OPTIONAL { ?item wdt:P856 ?officialWebsite . }'',
      ''  OPTIONAL { ?item wdt:P275 ?license . }'',
      ''  OPTIONAL { ?item wdt:P361 ?partOfEntity . }'',
      '''',
      ''  SERVICE wikibase:label {'',
      ''    bd:serviceParam wikibase:language "[AUTO_LANGUAGE],mul,en".'',
      ''    ?license rdfs:label ?licenseLabel .'',
      ''    ?partOfEntity rdfs:label ?partOfLabel .'',
      ''  }'',
      ''}'',
      ''GROUP BY ?item ?itemLabel'',
      ''''
     ]\<close>

definition software_head :: "string list" where
  \<open>software_head =
     [
      '''',
      ''SELECT'',
      ''  ?item'',
      ''  ?itemLabel'',
      ''  (GROUP_CONCAT(DISTINCT STR(?officialWebsite); separator=" | ") AS ?officialWebsites)'',
      ''  (GROUP_CONCAT(DISTINCT ?licenseLabel; separator=" | ") AS ?licenses)'',
      ''  (GROUP_CONCAT(DISTINCT ?partOfLabel; separator=" | ") AS ?partOf)'',
      ''  (SAMPLE(?version) AS ?latestVersion)'',
      ''  (MAX(?pubDate) AS ?latestReleaseDate)'',
      ''WHERE {'',
      ''  SERVICE wikibase:label { bd:serviceParam wikibase:language "[AUTO_LANGUAGE],mul,en". }'',
      '''',
      ''  {'',
      ''    SELECT DISTINCT ?item WHERE {'',
      ''      ?item wdt:P31/wdt:P279* wd:Q124653107 .  # software'',
      ''    }''
     ]\<close>

definition software_tail :: "string list" where
  \<open>software_tail =
     [
      ''  }'',
      '''',
      ''  OPTIONAL { ?item wdt:P856 ?officialWebsite . }'',
      ''  OPTIONAL { ?item wdt:P275 ?license . }'',
      ''  OPTIONAL { ?item wdt:P361 ?partOfEntity . }'',
      '''',
      ''  # P348 statement + P577 qualifier on that statement'',
      ''  OPTIONAL {'',
      ''    ?item p:P348 ?verStmt .'',
      ''    ?verStmt ps:P348 ?version .'',
      ''    OPTIONAL { ?verStmt pq:P577 ?pubDate . }'',
      ''  }'',
      '''',
      ''    # P348 statement + P577 qualifier on that statement'',
      ''  OPTIONAL {'',
      ''    ?item p:P348 ?verStmt .'',
      ''    ?verStmt ps:P348 ?version .'',
      ''    OPTIONAL { ?verStmt pq:P577 ?pubDate . }'',
      ''  }'',
      '''',
      ''  SERVICE wikibase:label {'',
      ''    bd:serviceParam wikibase:language "[AUTO_LANGUAGE],mul,en".'',
      ''    ?license rdfs:label ?licenseLabel .'',
      ''    ?partOfEntity rdfs:label ?partOfLabel .'',
      ''  }'',
      ''}'',
      ''GROUP BY ?item ?itemLabel'',
      ''''
     ]\<close>

definition limit_line :: "string \<Rightarrow> string" where
  "limit_line digits = ''    LIMIT '' @ digits"

definition BASE_QUERY_ONTO_VOCAB :: "int \<Rightarrow> error + string" where
  "BASE_QUERY_ONTO_VOCAB LIMIT =
     (case py_str LIMIT of
        Inl e \<Rightarrow> Inl e
      | Inr digits \<Rightarrow>
          Inr (py_join [CHR 0x0A] (onto_vocab_head @ [limit_line digits] @ onto_vocab_tail)))"

definition BASE_QUERY_SOFTWARE :: "int \<Rightarrow> error + string" where
  "BASE_QUERY_SOFTWARE LIMIT =
     (case py_str LIMIT of
        Inl e \<Rightarrow> Inl e
      | Inr digits \<Rightarrow>
          Inr (py_join [CHR 0x0A] (software_head @ [limit_line digits] @ software_tail)))"

section \<open>Result flattener: \<open>query_to_df\<close>\<close>

text \<open>\<open>m[k]\<close> raises \<open>KeyError\<close> for a missing key; \<open>m.get(k, dflt)\<close> does not.\<close>

definition getitem :: "(string \<rightharpoonup> 'v) \<Rightarrow> string \<Rightarrow> error + 'v" where
  "getitem m k = (case m k of None \<Rightarrow> Inl (KeyError k) | Some v \<Rightarrow> Inr v)"

definition dict_get :: "(string \<rightharpoonup> 'v) \<Rightarrow> string \<Rightarrow> 'v \<Rightarrow> 'v" where
  "dict_get m k dflt = (case m k of None \<Rightarrow> dflt | Some v \<Rightarrow> v)"

text \<open>
  One row of the data frame; the fields are the keys of the dictionary the loop builds
  (\<open>Official websites\<close>, \<open>Part of\<close> and \<open>latest release\<close> with underscores).  The
  type of the column \<open>latest release\<close> is a parameter: it is text as flattened and a
  time stamp once the software branch has parsed it.
\<close>

record 'd row =
  Item :: string
  Wikidata :: string
  Official_websites :: string
  Licenses :: string
  Part_of :: string
  latest_release :: 'd

text \<open>
  The dictionary display of the loop body.  Python evaluates the values in the order
  written, so \<open>b["itemLabel"]["value"]\<close> is looked up before \<open>b["item"]["value"]\<close>.
\<close>

definition make_row :: "binding \<Rightarrow> error + string row" where
  "make_row b =
     (case getitem b ''itemLabel'' of
        Inl e \<Rightarrow> Inl e
      | Inr label \<Rightarrow>
     (case getitem label ''value'' of
        Inl e \<Rightarrow> Inl e
      | Inr name \<Rightarrow>
     (case getitem b ''item'' of
        Inl e \<Rightarrow> Inl e
      | Inr item \<Rightarrow>
     (case getitem item ''value'' of
        Inl e \<Rightarrow> Inl e
      | Inr uri \<Rightarrow>
          Inr \<lparr>Item = name,
               Wikidata = uri,
               Official_websites = dict_get (dict_get b ''officialWebsites'' Map.empty) ''value'' '''',
               Licenses = dict_get (dict_get b ''licenses'' Map.empty) ''value'' '''',
               Part_of = dict_get (dict_get b ''partOf'' Map.empty) ''value'' '''',
               latest_release =
                 dict_get (dict_get b ''latestReleaseDate'' Map.empty) ''value'' ''''\<rparr>))))"

text \<open>The \<open>for\<close> loop: \<open>rows\<close> is the list built so far; an exception leaves the loop.\<close>

fun append_rows :: "string row list \<Rightarrow> binding list \<Rightarrow> error + string row list" where
  "append_rows rows [] = Inr rows"
| "append_rows rows (b # bs) =
     (case make_row b of
        Inl e \<Rightarrow> Inl e
      | Inr r \<Rightarrow> append_rows (rows @ [r]) bs)"

text \<open>
  \<open>query_to_df\<close>; the cache decorator only replays an earlier result for the same query
  text and is left out.  The data frame is the list of its rows.
\<close>

definition query_to_df :: "service \<Rightarrow> system \<Rightarrow> string \<Rightarrow> error + string row list" where
  "query_to_df srv sys query =
     (case fst (run_wdqs srv sys query) of
        Inl e \<Rightarrow> Inl e
      | Inr data \<Rightarrow>
     (case getitem data ''results'' of
        Inl e \<Rightarrow> Inl e
      | Inr results \<Rightarrow>
     (case getitem results ''bindings'' of
        Inl e \<Rightarrow> Inl e
      | Inr bindings \<Rightarrow> append_rows [] bindings)))"

definition OPTIONAL_FIELDS :: "string list" where
  "OPTIONAL_FIELDS = [''officialWebsites'', ''licenses'', ''partOf'', ''latestReleaseDate'']"

subsection \<open>The query that is sent\<close>

text \<open>
  \<open>RESOURCE_KIND\<close> is one of the two options of the select box, \<open>LIMIT\<close> the value
  of the slider.  The query sent is chosen by \<open>RESOURCE_KIND.startswith("Ontologies")\<close>.
\<close>

definition ONTOLOGIES :: string where
  "ONTOLOGIES = ''Ontologies + Controlled Vocabularies''"

definition SOFTWARE :: string where
  "SOFTWARE = ''Software (semantic / KG tools)''"

definition query :: "string \<Rightarrow> int \<Rightarrow> error + string" where
  "query RESOURCE_KIND LIMIT =
     (if startswith RESOURCE_KIND ''Ontologies'' then BASE_QUERY_ONTO_VOCAB LIMIT
      else BASE_QUERY_SOFTWARE LIMIT)"

section \<open>Derived columns\<close>

subsection \<open>\<open>.str.strip()\<close>\<close>

text \<open>
  \<open>str.strip()\<close> removes the characters for which \<open>str.isspace\<close> holds from both
  ends; below 256 these are the code points 9 to 13, 28 to 32, 133 and 160.
\<close>

definition isspace :: "char \<Rightarrow> bool" where
  "isspace c = (of_char c \<in> {9, 10, 11, 12, 13, 28, 29, 30, 31, 32, 133, 160 :: nat})"

definition strip :: "string \<Rightarrow> string" where
  "strip s = rev (dropWhile isspace (rev (dropWhile isspace s)))"

subsection \<open>\<open>.str.split(pat)\<close>\<close>

text \<open>
  \<open>Series.str.split(pat)\<close> with \<open>regex\<close> left at \<open>None\<close> takes a pattern of one
  character literally and compiles every other pattern as a regular expression.  The
  fragment of regular expressions modelled is the one the source's pattern is in:
  literal characters and the alternation bar.  A compiled pattern is the list of its
  alternatives; at a position the first alternative that matches is taken, as \<open>re\<close>
  does.  (An empty alternative is not matched: the source's pattern has none.)
\<close>

fun alternatives :: "string \<Rightarrow> string list" where
  "alternatives [] = [[]]"
| "alternatives (c # cs) =
     (if c = CHR ''|'' then [] # alternatives cs
      else (case alternatives cs of
              [] \<Rightarrow> [[c]]
            | a # as \<Rightarrow> (c # a) # as))"

fun match_len :: "string list \<Rightarrow> string \<Rightarrow> nat option" where
  "match_len [] s = None"
| "match_len (a # as) s =
     (if a \<noteq> [] \<and> startswith s a then Some (length a) else match_len as s)"

text \<open>
  \<open>re.split\<close>: \<open>piece\<close> is the text since the last match.  After a match of length
  \<open>n\<close> at \<open>c # cs\<close> the scan goes on behind it, at \<open>drop (n - 1) cs\<close>.
\<close>

fun re_split :: "string list \<Rightarrow> string \<Rightarrow> string \<Rightarrow> string list" where
  "re_split alts piece [] = [piece]"
| "re_split alts piece (c # cs) =
     (case match_len alts (c # cs) of
        Some n \<Rightarrow> piece # re_split alts [] (drop (n - 1) cs)
      | None \<Rightarrow> re_split alts (piece @ [c]) cs)"

definition str_split :: "string \<Rightarrow> string \<Rightarrow> string list" where
  "str_split pat s =
     (if length pat = 1 then re_split [pat] [] s
      else re_split (alternatives pat) [] s)"

text \<open>\<open>.str[0]\<close> is missing for an empty list; \<open>.fillna("")\<close> replaces what is missing.\<close>

definition str_first :: "string list \<Rightarrow> string option" where
  "str_first xs = (case xs of [] \<Rightarrow> None | x # rest \<Rightarrow> Some x)"

definition fillna :: "string \<Rightarrow> string option \<Rightarrow> string" where
  "fillna dflt v = (case v of None \<Rightarrow> dflt | Some x \<Rightarrow> x)"

subsection \<open>The columns added to every row\<close>

record 'd enriched = "'d row" +
  Has_website :: bool
  Has_license :: bool
  Wikidata_page :: string
  Official_website :: string

definition has_text :: "string \<Rightarrow> bool" where
  "has_text s = (strip s \<noteq> '''')"

definition first_website :: "string \<Rightarrow> string" where
  "first_website s = fillna '''' (str_first (str_split '' | '' s))"

definition enrich :: "string row \<Rightarrow> string enriched" where
  "enrich r =
     \<lparr>Item = Item r,
      Wikidata = Wikidata r,
      Official_websites = Official_websites r,
      Licenses = Licenses r,
      Part_of = Part_of r,
      latest_release = latest_release r,
      Has_website = has_text (Official_websites r),
      Has_license = has_text (Licenses r),
      Wikidata_page = Wikidata r,
      Official_website = first_website (Official_websites r)\<rparr>"

text \<open>
  The first segment of a text delimited by the three characters \<open>" | "\<close>, in the words
  of the specification: the text before the first place where the delimiter stands.
\<close>

fun spec_first_segment :: "string \<Rightarrow> string \<Rightarrow> string" where
  "spec_first_segment sep [] = []"
| "spec_first_segment sep (c # cs) =
     (if startswith (c # cs) sep then [] else c # spec_first_segment sep cs)"

section \<open>Sorting and column selection\<close>

subsection \<open>Parsing the release date (software only)\<close>

text \<open>
  \<open>pd.to_datetime(column, errors="coerce")\<close> turns a column of text into a column of
  time stamps, entry by entry; what it cannot read becomes \<open>NaT\<close>.  How an entry is
  read can depend on the whole column (the date format is guessed from it), and some
  columns make the call raise.  The function is a parameter of the model, which makes
  no assumption on the date formats it reads: given the column it either raises or
  gives the reading of an entry.  A time stamp is the number of its nanoseconds since
  the epoch.
\<close>

datatype timestamp = NaT | Timestamp int

definition with_release :: "'d enriched \<Rightarrow> 'e \<Rightarrow> 'e enriched" where
  "with_release r t =
     \<lparr>Item = Item r,
      Wikidata = Wikidata r,
      Official_websites = Official_websites r,
      Licenses = Licenses r,
      Part_of = Part_of r,
      latest_release = t,
      Has_website = Has_website r,
      Has_license = Has_license r,
      Wikidata_page = Wikidata_page r,
      Official_website = Official_website r\<rparr>"

type_synonym date_parser = "string list \<Rightarrow> error + (string \<Rightarrow> timestamp)"

definition parse_release ::
  "date_parser \<Rightarrow> string enriched list \<Rightarrow> error + timestamp enriched list" where
  "parse_release to_datetime df =
     (case to_datetime (map latest_release df) of
        Inl e \<Rightarrow> Inl e
      | Inr reading \<Rightarrow> Inr (map (\<lambda>r. with_release r (reading (latest_release r))) df))"

subsection \<open>\<open>df.sort_values(by=[...], ascending=[...])\<close>\<close>

text \<open>
  With more than one column \<open>sort_values\<close> gives every column integer codes that
  follow the requested direction, missing values getting the largest code whatever the
  direction (\<open>na_position\<close> is \<open>last\<close>), and sorts the codes with \<open>numpy.lexsort\<close>:
  one stable sort per column, from the last column of \<open>by\<close> to the first.  The codes
  here are values ordered like pandas' codes; \<open>sort_key\<close> is a stable sort.
\<close>

definition descending :: "bool \<Rightarrow> nat" where
  "descending b = (if b then 0 else 1)"

definition newest_first :: "timestamp \<Rightarrow> nat \<times> int" where
  "newest_first t = (case t of Timestamp n \<Rightarrow> (0, - n) | NaT \<Rightarrow> (1, 0))"

definition sort_software :: "timestamp enriched list \<Rightarrow> timestamp enriched list" where
  "sort_software df =
     sort_key (\<lambda>r. newest_first (latest_release r))
       (sort_key (\<lambda>r. descending (Has_website r))
          (sort_key (\<lambda>r. descending (Has_license r))
             (sort_key Item df)))"

definition sort_ontology :: "'d enriched list \<Rightarrow> 'd enriched list" where
  "sort_ontology df =
     sort_key (\<lambda>r. descending (Has_website r))
       (sort_key (\<lambda>r. descending (Has_license r))
          (sort_key Item df))"

text \<open>The whole key of a row, most significant column first.\<close>

definition software_key :: "timestamp enriched \<Rightarrow> (nat \<times> int) \<times> nat \<times> nat \<times> string" where
  "software_key r =
     (newest_first (latest_release r), descending (Has_website r), descending (Has_license r),
      Item r)"

definition ontology_key :: "'d enriched \<Rightarrow> nat \<times> nat \<times> string" where
  "ontology_key r = (descending (Has_website r), descending (Has_license r), Item r)"

subsection \<open>Column selection\<close>

datatype cell = Str string | Flag bool | Date timestamp

text \<open>A row of the frame as the list of its columns, in the frame's column order.\<close>

definition columns :: "('d \<Rightarrow> cell) \<Rightarrow> 'd enriched \<Rightarrow> (string \<times> cell) list" where
  "columns release r =
     [(''Item'', Str (Item r)),
      (''Wikidata'', Str (Wikidata r)),
      (''Official websites'', Str (Official_websites r)),
      (''Licenses'', Str (Licenses r)),
      (''Part of'', Str (Part_of r)),
      (''latest release'', release (latest_release r)),
      (''Has website'', Flag (Has_website r)),
      (''Has license'', Flag (Has_license r)),
      (''Wikidata page'', Str (Wikidata_page r)),
      (''Official website'', Str (Official_website r))]"

definition SOFTWARE_COLS :: "string list" where
  "SOFTWARE_COLS = [''Item'', ''latest release'', ''Licenses'', ''Official website'', ''Wikidata page'']"

definition ONTOLOGY_COLS :: "string list" where
  "ONTOLOGY_COLS = [''Item'', ''Licenses'', ''Official website'', ''Wikidata page'', ''Part of'']"

definition HELPER_COLS :: "string list" where
  "HELPER_COLS = [''Has website'', ''Has license'', ''Wikidata'', ''Official websites'']"

text \<open>\<open>df[[c for c in desired_cols if c in df.columns]]\<close> and \<open>df.drop(columns=...)\<close>\<close>

definition select_cols :: "string list \<Rightarrow> (string \<times> cell) list \<Rightarrow> (string \<times> cell) list" where
  "select_cols desired_cols cols =
     List.map_filter (\<lambda>c. map_option (Pair c) (map_of cols c)) desired_cols"

definition drop_cols :: "string list \<Rightarrow> (string \<times> cell) list \<Rightarrow> (string \<times> cell) list" where
  "drop_cols names cols = filter (\<lambda>cv. fst cv \<notin> set names) cols"

subsection \<open>The page\<close>

text \<open>
  The module's code after \<open>query_to_df\<close>, with the filter box left empty.  A frame built
  from no rows has no columns, so \<open>df["Official websites"]\<close> raises \<open>KeyError\<close> there.
\<close>

definition show_software :: "timestamp enriched \<Rightarrow> (string \<times> cell) list" where
  "show_software r = drop_cols HELPER_COLS (select_cols SOFTWARE_COLS (columns Date r))"

definition show_ontology :: "string enriched \<Rightarrow> (string \<times> cell) list" where
  "show_ontology r = drop_cols HELPER_COLS (select_cols ONTOLOGY_COLS (columns Str r))"

definition render ::
  "date_parser \<Rightarrow> string \<Rightarrow> string row list \<Rightarrow> error + (string \<times> cell) list list" where
  "render to_datetime RESOURCE_KIND df =
     (if df = [] then Inl (KeyError ''Official websites'')
      else if startswith RESOURCE_KIND ''Software'' then
        (case parse_release to_datetime (map enrich df) of
           Inl e \<Rightarrow> Inl e
         | Inr dated_df \<Rightarrow> Inr (map show_software (sort_software dated_df)))
      else Inr (map show_ontology (sort_ontology (map enrich df))))"

definition page ::
  "service \<Rightarrow> system \<Rightarrow> date_parser \<Rightarrow> string \<Rightarrow> int \<Rightarrow>
     error + (string \<times> cell) list list" where
  "page srv sys to_datetime RESOURCE_KIND LIMIT =
     (case query RESOURCE_KIND LIMIT of
        Inl e \<Rightarrow> Inl e
      | Inr q \<Rightarrow>
          (case query_to_df srv sys q of
             Inl e \<Rightarrow> Inl e
           | Inr df \<Rightarrow> render to_datetime RESOURCE_KIND df))"

section \<open>Catalog builder: \<open>summarize_formats\<close>\<close>

record Distribution =
  format :: "string option"
  media_type :: "string option"
  download_url :: "string option"

record Resource =
  id' :: string
  name :: string
  kind :: string
  domain :: "string option"
  free :: "bool option"
  publisher :: "string option"
  description :: "string option"
  license_name :: "string option"
  license_url :: "string option"
  homepage :: "string option"
  distributions :: "Distribution list"

text \<open>
  \<open>[d.format for d in r.distributions if d.format]\<close>: \<open>None\<close> and the empty string are
  false in a condition.
\<close>

definition fmts :: "Resource \<Rightarrow> string list" where
  "fmts r =
     List.map_filter
       (\<lambda>d. case format d of None \<Rightarrow> None | Some f \<Rightarrow> if f = '''' then None else Some f)
       (distributions r)"

text \<open>The loop over \<open>fmts\<close>, with its two variables \<open>seen\<close> and \<open>uniq\<close>.\<close>

fun uniq_loop :: "string set \<Rightarrow> string list \<Rightarrow> string list \<Rightarrow> string list" where
  "uniq_loop seen uniq [] = uniq"
| "uniq_loop seen uniq (f # fs) =
     (if f \<notin> seen then uniq_loop (insert f seen) (uniq @ [f]) fs
      else uniq_loop seen uniq fs)"

definition summarize_formats :: "Resource \<Rightarrow> string" where
  "summarize_formats r = py_join ''|'' (uniq_loop {} [] (fmts r))"

text \<open>
  Removing duplicates while keeping the order of first occurrence, in the words of the
  specification: an element stays where it first stands and its later copies go.
\<close>

fun spec_dedup :: "'a list \<Rightarrow> 'a list" where
  "spec_dedup [] = []"
| "spec_dedup (x # xs) = x # spec_dedup (removeAll x xs)"

definition dist :: "string \<Rightarrow> Distribution" where
  "dist f = \<lparr>format = Some f, media_type = None, download_url = None\<rparr>"

definition resource_with :: "Distribution list \<Rightarrow> Resource" where
  "resource_with ds =
     \<lparr>id' = ''r'', name = ''R'', kind = ''ontology'', domain = None, free = None,
      publisher = None, description = None, license_name = None, license_url = None,
      homepage = None, distributions = ds\<rparr>"

section \<open>Well-formed rows and concrete inputs\<close>

text \<open>A row has what the flattener reads unconditionally: label and subject, each with a value.\<close>

definition well_formed :: "binding \<Rightarrow> bool" where
  "well_formed b =
     ((case b ''itemLabel'' of None \<Rightarrow> False | Some label \<Rightarrow> label ''value'' \<noteq> None) \<and>
      (case b ''item'' of None \<Rightarrow> False | Some item \<Rightarrow> item ''value'' \<noteq> None))"

definition ok_response :: "binding list \<Rightarrow> response" where
  "ok_response bs =
     \<lparr>status_code = 200, headers = Map.empty,
      body = Some [''results'' \<mapsto> [''bindings'' \<mapsto> bs]]\<rparr>"

definition protege :: binding where
  "protege =
     [''item'' \<mapsto> [''value'' \<mapsto> ''http://www.wikidata.org/entity/Q2066865''],
      ''itemLabel'' \<mapsto> [''value'' \<mapsto> ''Protege''],
      ''partOf'' \<mapsto> [''value'' \<mapsto> ''Semantic Web'']]"

definition foaf :: binding where
  "foaf =
     [''item'' \<mapsto> [''value'' \<mapsto> ''http://www.wikidata.org/entity/Q1389366''],
      ''itemLabel'' \<mapsto> [''value'' \<mapsto> ''FOAF'']]"

definition unlabelled :: binding where
  "unlabelled = [''item'' \<mapsto> [''value'' \<mapsto> ''http://www.wikidata.org/entity/Q1'']]"

definition anonymous :: binding where
  "anonymous = [''itemLabel'' \<mapsto> [''value'' \<mapsto> ''Nameless'']]"

definition protege_row :: "string row" where
  "protege_row =
     \<lparr>Item = ''Protege'', Wikidata = ''http://www.wikidata.org/entity/Q2066865'',
      Official_websites = '''', Licenses = '''', Part_of = ''Semantic Web'',
      latest_release = ''''\<rparr>"

definition no_dates :: date_parser where
  "no_dates column = Inr (\<lambda>s. NaT)"



text \<open>The line of both templates that selects the aggregated \<open>partOf\<close> labels.\<close>

definition PART_OF_SELECT :: string where
  \<open>PART_OF_SELECT = ''  (GROUP_CONCAT(DISTINCT ?partOfLabel; separator=" | ") AS ?partOf)''\<close>

section \<open>The orders of the two tables in the words of the specification\<close>

text \<open>
  A release date comes before another when it is the later date, and any date comes
  before a missing one.  In the software table a row comes no later than another when
  its date comes before, or the dates are the same and it has a website and the other
  has none, or they agree on that too and it has a licence and the other has none, or
  they agree on all three and its name is not greater.  The other table is ordered the
  same way without the date.  Two rows tie when they agree on every column of the order.
\<close>

definition newer :: "timestamp \<Rightarrow> timestamp \<Rightarrow> bool" where
  "newer t u =
     (case t of
        NaT \<Rightarrow> False
      | Timestamp a \<Rightarrow> (case u of NaT \<Rightarrow> True | Timestamp b \<Rightarrow> b < a))"

definition spec_ontology_order :: "'d enriched \<Rightarrow> 'd enriched \<Rightarrow> bool" where
  "spec_ontology_order r s =
     (Has_website r \<and> \<not> Has_website s \<or>
      Has_website r = Has_website s \<and>
      (Has_license r \<and> \<not> Has_license s \<or>
       Has_license r = Has_license s \<and> Item r \<le> Item s))"

definition spec_software_order :: "timestamp enriched \<Rightarrow> timestamp enriched \<Rightarrow> bool" where
  "spec_software_order r s =
     (newer (latest_release r) (latest_release s) \<or>
      latest_release r = latest_release s \<and> spec_ontology_order r s)"

definition ontology_tie :: "'d enriched \<Rightarrow> 'd enriched \<Rightarrow> bool" where
  "ontology_tie r s =
     (Has_website r = Has_website s \<and> Has_license r = Has_license s \<and> Item r = Item s)"

definition software_tie :: "timestamp enriched \<Rightarrow> timestamp enriched \<Rightarrow> bool" where
  "software_tie r s = (latest_release r = latest_release s \<and> ontology_tie r s)"

text \<open>Rows used as concrete inputs: a name, a subject, a release date.\<close>

definition release_row :: "string \<Rightarrow> string \<Rightarrow> 'd \<Rightarrow> 'd enriched" where
  "release_row nm uri t =
     \<lparr>Item = nm, Wikidata = uri, Official_websites = [], Licenses = [], Part_of = [],
      latest_release = t, Has_website = False, Has_license = False, Wikidata_page = uri,
      Official_website = []\<rparr>"

definition JAN_2020 :: timestamp where
  "JAN_2020 = Timestamp 1577836800000000000"

definition MAY_2022 :: timestamp where
  "MAY_2022 = Timestamp 1651363200000000000"

text \<open>A reading of the dates the query service sends, and rows of text to read.\<close>

definition iso_dates :: date_parser where
  "iso_dates column =
     Inr (\<lambda>s. if s = ''2020-01-01T00:00:00Z'' then JAN_2020
               else if s = ''2022-05-01T00:00:00Z'' then MAY_2022
               else NaT)"

definition dated_row :: "string \<Rightarrow> string \<Rightarrow> string row" where
  "dated_row nm d =
     \<lparr>Item = nm, Wikidata = ''http://www.wikidata.org/entity/Q0'', Official_websites = [],
      Licenses = [], Part_of = [], latest_release = d\<rparr>"

section \<open>Properties of the transport client\<close>

lemma lower_retry_after: "map ascii_lower ''Retry-After'' = ''retry-after''"
  by (simp add: ascii_lower_def)

lemma py_int_5: "py_int ''5'' = Some 5"
  by (simp add: py_int_def parse_unsigned_def INT_MAX_STR_DIGITS_def digit_val_def int_space_def)

lemma py_int_soon: "py_int ''soon'' = None"
  by (simp add: py_int_def parse_unsigned_def INT_MAX_STR_DIGITS_def digit_val_def int_space_def)

lemma py_int_http_date: "py_int ''Wed, 21 Oct 2026 07:28:00 GMT'' = None"
  by (simp add: py_int_def parse_unsigned_def INT_MAX_STR_DIGITS_def digit_val_def int_space_def)

lemma retry_after_absent: "headers r ''retry-after'' = None \<Longrightarrow> retry_after r = Inr 5"
  unfolding retry_after_def headers_get_def lower_retry_after by (simp add: py_int_5)

lemma retry_after_present:
  "headers r ''retry-after'' = Some v \<Longrightarrow>
   retry_after r = (case py_int v of None \<Rightarrow> Inl ValueError | Some d \<Rightarrow> Inr d)"
  unfolding retry_after_def headers_get_def lower_retry_after by simp

text \<open>No call makes more than two requests, whatever the service and the system do.\<close>

lemma requests_made_le: "requests_made (run_wdqs srv sys q) \<le> 2"
  by (simp add: requests_made_def run_wdqs_def split: outcome.split sum.split)

text \<open>
  Where the wait is read and the sleep is carried out, the call sleeps for that wait and
  asks exactly once more; a second status 429 then ends the call with that HTTP error.
\<close>

lemma run_wdqs_retry:
  assumes "srv 0 q = Returns r" "status_code r = 429" "retry_after r = Inr d"
    "time_sleep sys d = Inr ()"
  shows "snd (run_wdqs srv sys q) = [Get q, Sleep d, Get q]"
  using assms by (simp add: run_wdqs_def split: outcome.split)

lemma run_wdqs_second_429:
  assumes "srv 0 q = Returns r" "status_code r = 429" "retry_after r = Inr d"
    "time_sleep sys d = Inr ()" "srv 1 q = Returns r2" "status_code r2 = 429"
  shows "fst (run_wdqs srv sys q) = Inl (HTTPError 429)"
  using assms by (simp add: run_wdqs_def finish_def raise_for_status_def)

text \<open>
  Claim C1, where the code departs from it.  The service answers the first request with
  status 429 and a \<open>Retry-After\<close> field in the other form RFC 9110 allows, a date.
  \<open>int\<close> cannot read it: the call ends with \<open>ValueError\<close> after that one request,
  it has not slept and it does not ask again, whatever the system would do with a
  sleep.
\<close>

theorem run_wdqs_http_date_no_retry:
  "dated 0 ''q'' = Returns (too_many (Some ''Wed, 21 Oct 2026 07:28:00 GMT'')) \<and>
   status_code (too_many (Some ''Wed, 21 Oct 2026 07:28:00 GMT'')) = 429 \<and>
   run_wdqs dated sys ''q'' = (Inl ValueError, [Get ''q'']) \<and>
   requests_made (run_wdqs dated sys ''q'') = 1"
  by (simp add: dated_def always_def too_many_def run_wdqs_def retry_after_present
      py_int_http_date requests_made_def)

text \<open>
  Claim C3, where the code departs from it.  The service answers the first request with
  status 429 and the field \<open>Retry-After: soon\<close>, which is not a number.  The default
  \<open>"5"\<close> is only what \<open>headers.get\<close> gives for a field that is absent; here the field
  is there, \<open>int\<close> raises \<open>ValueError\<close>, and the call ends without a sleep of 5 or
  of any other length.
\<close>

theorem retry_after_unparseable_raises:
  "vague 0 ''q'' = Returns (too_many (Some ''soon'')) \<and>
   status_code (too_many (Some ''soon'')) = 429 \<and>
   headers (too_many (Some ''soon'')) ''retry-after'' = Some ''soon'' \<and>
   py_int ''soon'' = None \<and>
   retry_after (too_many (Some ''soon'')) = Inl ValueError \<and>
   fst (run_wdqs vague sys ''q'') = Inl ValueError \<and>
   filter is_Sleep (snd (run_wdqs vague sys ''q'')) = []"
  by (simp add: vague_def always_def too_many_def run_wdqs_def retry_after_present py_int_soon)

text \<open>The same field absent: the wait is 5.\<close>

lemma retry_after_default_when_absent:
  "retry_after (too_many None) = Inr 5"
  by (simp add: retry_after_absent too_many_def)

section \<open>Properties of the flattener\<close>

lemma make_row_well_formed: "well_formed b \<longleftrightarrow> \<not> isl (make_row b)"
  by (auto simp: well_formed_def make_row_def getitem_def split: option.splits)

lemma make_row_error:
  "make_row b = Inl e \<Longrightarrow> e \<in> {KeyError ''itemLabel'', KeyError ''item'', KeyError ''value''}"
  by (auto simp: make_row_def getitem_def split: option.splits)

lemma dict_get_absent: "b k = None \<Longrightarrow> dict_get (dict_get b k Map.empty) ''value'' '''' = ''''"
  by (simp add: dict_get_def)

lemma make_row_fields:
  assumes "make_row b = Inr r"
  shows "Official_websites r = dict_get (dict_get b ''officialWebsites'' Map.empty) ''value'' ''''"
    and "Licenses r = dict_get (dict_get b ''licenses'' Map.empty) ''value'' ''''"
    and "Part_of r = dict_get (dict_get b ''partOf'' Map.empty) ''value'' ''''"
    and "latest_release r = dict_get (dict_get b ''latestReleaseDate'' Map.empty) ''value'' ''''"
  using assms by (auto simp: make_row_def getitem_def split: option.splits)

lemma well_formed_optional:
  "k \<in> set OPTIONAL_FIELDS \<Longrightarrow> well_formed (b(k := None)) = well_formed b"
  by (auto simp: OPTIONAL_FIELDS_def well_formed_def)

text \<open>The loop appends, in order, the record of each row.\<close>

lemma append_rows_total:
  "\<forall>b \<in> set bs. well_formed b \<Longrightarrow>
   \<exists>rows. append_rows acc bs = Inr (acc @ rows) \<and> map make_row bs = map Inr rows"
proof (induction bs arbitrary: acc)
  case Nil
  then show ?case by simp
next
  case (Cons b bs)
  from Cons.prems have "\<not> isl (make_row b)"
    by (simp add: make_row_well_formed)
  then obtain r where r: "make_row b = Inr r"
    by (cases "make_row b") auto
  from Cons.prems have "\<forall>b \<in> set bs. well_formed b"
    by simp
  from Cons.IH [OF this, of "acc @ [r]"]
  obtain rows where "append_rows (acc @ [r]) bs = Inr ((acc @ [r]) @ rows)"
    and "map make_row bs = map Inr rows"
    by blast
  then have "append_rows acc (b # bs) = Inr (acc @ (r # rows)) \<and>
    map make_row (b # bs) = map Inr (r # rows)"
    using r by simp
  then show ?case by blast
qed

lemma append_rows_fails:
  "b \<in> set bs \<Longrightarrow> \<not> well_formed b \<Longrightarrow> \<exists>k. append_rows acc bs = Inl (KeyError k)"
proof (induction bs arbitrary: acc)
  case Nil
  then show ?case by simp
next
  case (Cons c bs)
  show ?case
  proof (cases "make_row c")
    case (Inl e)
    then show ?thesis
      using make_row_error [OF Inl] by auto
  next
    case (Inr r)
    then have "well_formed c"
      by (simp add: make_row_well_formed)
    with Cons.prems have "b \<in> set bs"
      by auto
    from Cons.IH [OF this Cons.prems(2), of "acc @ [r]"] Inr show ?thesis
      by simp
  qed
qed

lemma query_to_df_ok:
  assumes "srv 0 q = Returns r" "status_code r = 200" "body r = Some data"
    "data ''results'' = Some results" "results ''bindings'' = Some bs"
  shows "query_to_df srv sys q = append_rows [] bs"
  using assms
  by (simp add: query_to_df_def run_wdqs_def finish_def raise_for_status_def json_def
      getitem_def)

text \<open>
  Claim C6.  A row that has its label and its subject is flattened without an error
  whatever optional fields it lacks, and each of \<open>officialWebsites\<close>, \<open>licenses\<close>,
  \<open>partOf\<close> and \<open>latestReleaseDate\<close> that it lacks is the empty string in the record.
  For a list of such rows the loop returns, in order, exactly the records of the rows,
  and so does \<open>query_to_df\<close> when the service answers with that list.  Taking an
  optional field away from a row never turns a record into an error.
\<close>

theorem flatten_total_on_absent_optional_fields:
  "(well_formed b \<longrightarrow>
      (\<exists>r. make_row b = Inr r \<and>
        (b ''officialWebsites'' = None \<longrightarrow> Official_websites r = '''') \<and>
        (b ''licenses'' = None \<longrightarrow> Licenses r = '''') \<and>
        (b ''partOf'' = None \<longrightarrow> Part_of r = '''') \<and>
        (b ''latestReleaseDate'' = None \<longrightarrow> latest_release r = ''''))) \<and>
   ((\<forall>b \<in> set bs. well_formed b) \<longrightarrow>
      (\<exists>rows. append_rows [] bs = Inr rows \<and> length rows = length bs \<and>
         map make_row bs = map Inr rows \<and>
         (srv 0 q = Returns resp \<and> status_code resp = 200 \<and> body resp = Some data \<and>
          data ''results'' = Some results \<and> results ''bindings'' = Some bs \<longrightarrow>
            query_to_df srv sys q = Inr rows))) \<and>
   (k \<in> set OPTIONAL_FIELDS \<longrightarrow> isl (make_row (b(k := None))) = isl (make_row b))"
proof (intro conjI impI)
  assume "well_formed b"
  then obtain r where r: "make_row b = Inr r"
    by (cases "make_row b") (auto simp: make_row_well_formed)
  show "\<exists>r. make_row b = Inr r \<and>
        (b ''officialWebsites'' = None \<longrightarrow> Official_websites r = '''') \<and>
        (b ''licenses'' = None \<longrightarrow> Licenses r = '''') \<and>
        (b ''partOf'' = None \<longrightarrow> Part_of r = '''') \<and>
        (b ''latestReleaseDate'' = None \<longrightarrow> latest_release r = '''')"
    using r by (simp add: make_row_fields [OF r] dict_get_absent)
next
  assume "\<forall>b \<in> set bs. well_formed b"
  from append_rows_total [OF this, of "[]"]
  obtain rows where a: "append_rows [] bs = Inr rows" and m: "map make_row bs = map Inr rows"
    by auto
  from m have "length (map make_row bs) = length (map Inr rows :: (error + string row) list)"
    by simp
  then have l: "length rows = length bs"
    by simp
  have "srv 0 q = Returns resp \<and> status_code resp = 200 \<and> body resp = Some data \<and>
          data ''results'' = Some results \<and> results ''bindings'' = Some bs \<longrightarrow>
            query_to_df srv sys q = Inr rows"
    using a by (auto simp: query_to_df_ok [of srv q resp data results bs sys])
  with a l m show "\<exists>rows. append_rows [] bs = Inr rows \<and> length rows = length bs \<and>
         map make_row bs = map Inr rows \<and>
         (srv 0 q = Returns resp \<and> status_code resp = 200 \<and> body resp = Some data \<and>
          data ''results'' = Some results \<and> results ''bindings'' = Some bs \<longrightarrow>
            query_to_df srv sys q = Inr rows)"
    by blast
next
  assume "k \<in> set OPTIONAL_FIELDS"
  then show "isl (make_row (b(k := None))) = isl (make_row b)"
    using make_row_well_formed [of b] make_row_well_formed [of "b(k := None)"]
    by (simp add: well_formed_optional)
qed

lemma well_formed_foaf: "well_formed foaf"
  by (simp add: well_formed_def foaf_def)

lemma well_formed_protege: "well_formed protege"
  by (simp add: well_formed_def protege_def)

lemma make_row_foaf:
  "make_row foaf =
     Inr \<lparr>Item = ''FOAF'', Wikidata = ''http://www.wikidata.org/entity/Q1389366'',
          Official_websites = '''', Licenses = '''', Part_of = '''', latest_release = ''''\<rparr>"
  by (simp add: make_row_def getitem_def dict_get_def foaf_def)

lemma make_row_protege: "make_row protege = Inr protege_row"
  by (simp add: make_row_def getitem_def dict_get_def protege_def protege_row_def)

theorem flatten_total_on_absent_optional_fields_witness:
  "well_formed foaf \<and> foaf ''officialWebsites'' = None \<and> foaf ''licenses'' = None \<and>
   foaf ''partOf'' = None \<and> foaf ''latestReleaseDate'' = None \<and>
   ''partOf'' \<in> set OPTIONAL_FIELDS \<and>
   make_row foaf =
     Inr \<lparr>Item = ''FOAF'', Wikidata = ''http://www.wikidata.org/entity/Q1389366'',
          Official_websites = '''', Licenses = '''', Part_of = '''', latest_release = ''''\<rparr> \<and>
   query_to_df (always (ok_response [foaf, protege])) awake ''q'' =
     Inr [\<lparr>Item = ''FOAF'', Wikidata = ''http://www.wikidata.org/entity/Q1389366'',
           Official_websites = '''', Licenses = '''', Part_of = '''', latest_release = ''''\<rparr>,
          protege_row] \<and>
   \<not> isl (make_row (protege(''partOf'' := None)))"
proof -
  let ?srv = "always (ok_response [foaf, protege])"
  let ?data = "[''results'' \<mapsto> [''bindings'' \<mapsto> [foaf, protege]]]"
  have wf: "\<forall>b \<in> set [foaf, protege]. well_formed b"
    by (simp add: well_formed_foaf well_formed_protege)
  have absent: "foaf ''officialWebsites'' = None \<and> foaf ''licenses'' = None \<and>
    foaf ''partOf'' = None \<and> foaf ''latestReleaseDate'' = None"
    by (simp add: foaf_def)
  have opt: "''partOf'' \<in> set OPTIONAL_FIELDS"
    by (simp add: OPTIONAL_FIELDS_def)
  have s: "?srv 0 ''q'' = Returns (ok_response [foaf, protege]) \<and>
    status_code (ok_response [foaf, protege]) = 200 \<and>
    body (ok_response [foaf, protege]) = Some ?data \<and>
    ?data ''results'' = Some [''bindings'' \<mapsto> [foaf, protege]] \<and>
    [''bindings'' \<mapsto> [foaf, protege]] ''bindings'' = Some [foaf, protege]"
    by (simp add: always_def ok_response_def)
  from flatten_total_on_absent_optional_fields [of foaf "[foaf, protege]" ?srv "''q''"
      "ok_response [foaf, protege]" ?data "[''bindings'' \<mapsto> [foaf, protege]]" awake
      "''partOf''"] wf s
  obtain rows where m: "map make_row [foaf, protege] = map Inr rows"
    and q: "query_to_df ?srv awake ''q'' = Inr rows"
    by blast
  from m have "rows =
     [\<lparr>Item = ''FOAF'', Wikidata = ''http://www.wikidata.org/entity/Q1389366'',
       Official_websites = '''', Licenses = '''', Part_of = '''', latest_release = ''''\<rparr>,
      protege_row]"
    by (auto simp: make_row_foaf make_row_protege map_eq_Cons_conv)
  with q have frame: "query_to_df ?srv awake ''q'' =
     Inr [\<lparr>Item = ''FOAF'', Wikidata = ''http://www.wikidata.org/entity/Q1389366'',
           Official_websites = '''', Licenses = '''', Part_of = '''', latest_release = ''''\<rparr>,
          protege_row]"
    by simp
  have "\<not> isl (make_row protege)"
    by (simp add: make_row_protege)
  then have "\<not> isl (make_row (protege(''partOf'' := None)))"
    using flatten_total_on_absent_optional_fields [of protege "[]" _ _ _ _ _ _ "''partOf''"] opt
    by simp
  then show ?thesis
    using frame absent opt make_row_foaf well_formed_foaf by blast
qed

text \<open>
  Claim C10.  The label and the subject are read without a default: a row without the
  key \<open>itemLabel\<close> raises \<open>KeyError\<close> for it, a row with a label but without the key
  \<open>item\<close> raises \<open>KeyError\<close> for that, and one such row makes the loop, and with it
  \<open>query_to_df\<close>, end in a \<open>KeyError\<close> instead of a frame.
\<close>

theorem flatten_requires_item_and_label:
  "(b ''itemLabel'' = None \<longrightarrow> make_row b = Inl (KeyError ''itemLabel'')) \<and>
   (b ''itemLabel'' = Some label \<and> label ''value'' = Some nm \<and> b ''item'' = None \<longrightarrow>
      make_row b = Inl (KeyError ''item'')) \<and>
   (b \<in> set bs \<and> (b ''itemLabel'' = None \<or> b ''item'' = None) \<longrightarrow>
      (\<exists>k. append_rows acc bs = Inl (KeyError k)) \<and>
      (srv 0 q = Returns r \<and> status_code r = 200 \<and> body r = Some data \<and>
       data ''results'' = Some results \<and> results ''bindings'' = Some bs \<longrightarrow>
         (\<exists>k. query_to_df srv sys q = Inl (KeyError k))))"
proof (intro conjI impI)
  assume "b ''itemLabel'' = None"
  then show "make_row b = Inl (KeyError ''itemLabel'')"
    by (simp add: make_row_def getitem_def)
next
  assume "b ''itemLabel'' = Some label \<and> label ''value'' = Some nm \<and> b ''item'' = None"
  then show "make_row b = Inl (KeyError ''item'')"
    by (simp add: make_row_def getitem_def)
next
  assume h: "b \<in> set bs \<and> (b ''itemLabel'' = None \<or> b ''item'' = None)"
  then have "\<not> well_formed b"
    by (auto simp: well_formed_def)
  with h show "\<exists>k. append_rows acc bs = Inl (KeyError k)"
    using append_rows_fails [of b bs acc] by blast
next
  assume h: "b \<in> set bs \<and> (b ''itemLabel'' = None \<or> b ''item'' = None)"
    and s: "srv 0 q = Returns r \<and> status_code r = 200 \<and> body r = Some data \<and>
       data ''results'' = Some results \<and> results ''bindings'' = Some bs"
  from h have "\<not> well_formed b"
    by (auto simp: well_formed_def)
  with h have "\<exists>k. append_rows [] bs = Inl (KeyError k)"
    using append_rows_fails [of b bs "[]"] by blast
  with s show "\<exists>k. query_to_df srv sys q = Inl (KeyError k)"
    by (simp add: query_to_df_ok [of srv q r data results bs])
qed

theorem flatten_requires_item_and_label_witness:
  "unlabelled ''itemLabel'' = None \<and> anonymous ''item'' = None \<and>
   anonymous ''itemLabel'' = Some [''value'' \<mapsto> ''Nameless''] \<and>
   make_row unlabelled = Inl (KeyError ''itemLabel'') \<and>
   make_row anonymous = Inl (KeyError ''item'') \<and>
   (\<exists>k. append_rows [] [foaf, anonymous] = Inl (KeyError k)) \<and>
   (\<exists>k. query_to_df (always (ok_response [foaf, anonymous])) awake ''q'' = Inl (KeyError k))"
proof -
  have a: "unlabelled ''itemLabel'' = None"
    by (simp add: unlabelled_def)
  have b: "anonymous ''item'' = None \<and>
    anonymous ''itemLabel'' = Some [''value'' \<mapsto> ''Nameless'']"
    by (simp add: anonymous_def)
  have s: "always (ok_response [foaf, anonymous]) 0 ''q'' = Returns (ok_response [foaf, anonymous])
    \<and> status_code (ok_response [foaf, anonymous]) = 200
    \<and> body (ok_response [foaf, anonymous]) = Some [''results'' \<mapsto> [''bindings'' \<mapsto> [foaf, anonymous]]]"
    by (simp add: always_def ok_response_def)
  show ?thesis
    using flatten_requires_item_and_label [of unlabelled _ _ "[unlabelled]"]
      flatten_requires_item_and_label [of anonymous "[''value'' \<mapsto> ''Nameless'']" "''Nameless''"
        "[foaf, anonymous]" "[]" "always (ok_response [foaf, anonymous])" "''q''"
        "ok_response [foaf, anonymous]" "[''results'' \<mapsto> [''bindings'' \<mapsto> [foaf, anonymous]]]"
        "[''bindings'' \<mapsto> [foaf, anonymous]]" awake]
      a b s
    by simp
qed

section \<open>Properties of the catalog builder\<close>

lemma uniq_loop_spec:
  "uniq_loop seen uniq fs = uniq @ spec_dedup (filter (\<lambda>f. f \<notin> seen) fs)"
proof (induction fs arbitrary: seen uniq)
  case Nil
  then show ?case by simp
next
  case (Cons f fs)
  show ?case
  proof (cases "f \<in> seen")
    case True
    then show ?thesis
      by (simp add: Cons.IH)
  next
    case False
    have "removeAll f (filter (\<lambda>g. g \<notin> seen) fs) = filter (\<lambda>g. g \<notin> insert f seen) fs"
      by (induction fs) auto
    with False show ?thesis
      by (simp add: Cons.IH)
  qed
qed

lemma set_spec_dedup: "set (spec_dedup xs) = set xs"
proof (induction xs rule: spec_dedup.induct)
  case 1
  then show ?case by simp
next
  case (2 x xs)
  then show ?case by auto
qed

lemma distinct_spec_dedup: "distinct (spec_dedup xs)"
proof (induction xs rule: spec_dedup.induct)
  case 1
  then show ?case by simp
next
  case (2 x xs)
  then show ?case by (simp add: set_spec_dedup)
qed

lemma spec_dedup_distinct: "distinct xs \<Longrightarrow> spec_dedup xs = xs"
  by (induction xs) (simp_all add: removeAll_id)

text \<open>
  Claim C9.  The \<open>formats\<close> field is the formats of the resource's distributions (those
  that are present and not empty), each kept at its first occurrence and dropped at the
  later ones, joined by \<open>|\<close>; no format occurs twice and none is lost; for the formats
  ttl, ttl, csv the field is \<open>ttl|csv\<close>.
\<close>

theorem summarize_formats_dedup:
  "summarize_formats r = py_join ''|'' (spec_dedup (fmts r)) \<and>
   distinct (spec_dedup (fmts r)) \<and>
   set (spec_dedup (fmts r)) = set (fmts r) \<and>
   summarize_formats (resource_with [dist ''ttl'', dist ''ttl'', dist ''csv'']) = ''ttl|csv''"
proof (intro conjI)
  show eq: "summarize_formats r = py_join ''|'' (spec_dedup (fmts r))" for r
    by (simp add: summarize_formats_def uniq_loop_spec)
  show "distinct (spec_dedup (fmts r))"
    by (rule distinct_spec_dedup)
  show "set (spec_dedup (fmts r)) = set (fmts r)"
    by (rule set_spec_dedup)
  have "fmts (resource_with [dist ''ttl'', dist ''ttl'', dist ''csv'']) = [''ttl'', ''ttl'', ''csv'']"
    by (simp add: fmts_def resource_with_def dist_def List.map_filter_simps)
  then show "summarize_formats (resource_with [dist ''ttl'', dist ''ttl'', dist ''csv'']) = ''ttl|csv''"
    by (simp add: eq)
qed

theorem summarize_formats_dedup_witness:
  "summarize_formats (resource_with [dist ''owl'', dist '''', dist ''ttl'', dist ''owl'']) = ''owl|ttl''"
proof -
  have "fmts (resource_with [dist ''owl'', dist '''', dist ''ttl'', dist ''owl''])
    = [''owl'', ''ttl'', ''owl'']"
    by (simp add: fmts_def resource_with_def dist_def List.map_filter_simps)
  then show ?thesis
    using summarize_formats_dedup [of "resource_with [dist ''owl'', dist '''', dist ''ttl'', dist ''owl'']"]
    by simp
qed

section \<open>Properties of the query builder\<close>

lemma length_decimal: "n < 10 ^ k \<Longrightarrow> 0 < k \<Longrightarrow> length (decimal n) \<le> k"
proof (induction n arbitrary: k rule: decimal.induct)
  case (1 n)
  show ?case
  proof (cases "n < 10")
    case True
    with "1.prems" show ?thesis
      by (simp add: decimal.simps [of n])
  next
    case False
    obtain j where k: "k = Suc j"
      using "1.prems"(2) by (cases k) auto
    have "0 < j"
    proof (rule ccontr)
      assume "\<not> 0 < j"
      with k "1.prems"(1) False show False by simp
    qed
    moreover have "n div 10 < 10 ^ j"
      using "1.prems"(1) k by (simp add: less_mult_imp_div_less mult.commute)
    ultimately have "length (decimal (n div 10)) \<le> j"
      using "1.IH" [OF False] by simp
    with False k show ?thesis
      by (simp add: decimal.simps [of n])
  qed
qed

text \<open>\<open>str\<close> of an integer of at most 4300 digits is its numeral and raises nothing.\<close>

lemma py_str_value:
  assumes "\<bar>n\<bar> < 10 ^ INT_MAX_STR_DIGITS"
  shows "py_str n = Inr (if n < 0 then CHR ''-'' # decimal (nat (- n)) else decimal (nat n))"
proof -
  have "nat \<bar>n\<bar> < 10 ^ INT_MAX_STR_DIGITS"
    using assms by (simp add: nat_less_iff)
  moreover have "0 < INT_MAX_STR_DIGITS"
    by (simp add: INT_MAX_STR_DIGITS_def)
  ultimately have "length (decimal (nat \<bar>n\<bar>)) \<le> INT_MAX_STR_DIGITS"
    by (rule length_decimal)
  then show ?thesis
    by (simp add: py_str_def)
qed

text \<open>
  The query for such a number is the template of the kind with the numeral on its
  \<open>LIMIT\<close> line: the f-string has no other outcome, and no branch looks at the number.
\<close>

lemma query_value:
  assumes "\<bar>LIMIT\<bar> < 10 ^ INT_MAX_STR_DIGITS"
  shows "\<exists>digits.
    py_str LIMIT = Inr digits \<and>
    query RESOURCE_KIND LIMIT =
      Inr (py_join [CHR 0x0A]
            (if startswith RESOURCE_KIND ''Ontologies''
             then onto_vocab_head @ [limit_line digits] @ onto_vocab_tail
             else software_head @ [limit_line digits] @ software_tail))"
  using py_str_value [OF assms]
  by (simp add: query_def BASE_QUERY_ONTO_VOCAB_def BASE_QUERY_SOFTWARE_def)

lemma kinds_start:
  "startswith ONTOLOGIES ''Ontologies''" "\<not> startswith SOFTWARE ''Ontologies''"
  "startswith SOFTWARE ''Software''" "\<not> startswith ONTOLOGIES ''Software''"
  by (simp_all add: startswith_def ONTOLOGIES_def SOFTWARE_def)

lemma software_query_500:
  "query SOFTWARE 500 =
     Inr (py_join [CHR 0x0A] (software_head @ [''    LIMIT 500''] @ software_tail))"
proof -
  have "py_str 500 = Inr ''500''"
    by code_simp
  then show ?thesis
    by (simp add: query_def kinds_start BASE_QUERY_SOFTWARE_def limit_line_def)
qed

lemma py_join_mem: "x \<in> set xs \<Longrightarrow> \<exists>pre post. py_join sep xs = pre @ x @ post"
proof (induction sep xs rule: py_join.induct)
  case (1 sep)
  then show ?case by simp
next
  case (2 sep y)
  then have "py_join sep [y] = [] @ x @ []"
    by simp
  then show ?case by blast
next
  case (3 sep y z zs)
  show ?case
  proof (cases "x = y")
    case True
    then have "py_join sep (y # z # zs) = [] @ x @ (sep @ py_join sep (z # zs))"
      by simp
    then show ?thesis by blast
  next
    case False
    with "3.prems" have "x \<in> set (z # zs)"
      by simp
    from "3.IH" [OF this] obtain pre post where "py_join sep (z # zs) = pre @ x @ post"
      by blast
    then have "py_join sep (y # z # zs) = (y @ sep @ pre) @ x @ post"
      by simp
    then show ?thesis by blast
  qed
qed

lemma software_query_selects_part_of:
  assumes "BASE_QUERY_SOFTWARE LIMIT = Inr text"
  shows "\<exists>pre post. text = pre @ PART_OF_SELECT @ post"
proof -
  obtain digits where
    "text = py_join [CHR 0x0A] (software_head @ [limit_line digits] @ software_tail)"
    using assms by (auto simp: BASE_QUERY_SOFTWARE_def split: sum.splits)
  moreover have "PART_OF_SELECT \<in> set (software_head @ [limit_line digits] @ software_tail)"
    by (simp add: software_head_def PART_OF_SELECT_def)
  ultimately show ?thesis
    using py_join_mem by metis
qed

section \<open>Properties of the derived columns and of the column selection\<close>

lemma strip_empty_iff: "strip s = [] \<longleftrightarrow> (\<forall>c \<in> set s. isspace c)"
proof
  assume "strip s = []"
  then have all: "\<forall>c \<in> set (dropWhile isspace s). isspace c"
    by (simp add: strip_def dropWhile_eq_Nil_conv)
  show "\<forall>c \<in> set s. isspace c"
  proof (rule ccontr)
    assume "\<not> (\<forall>c \<in> set s. isspace c)"
    then have ne: "dropWhile isspace s \<noteq> []"
      by (simp add: dropWhile_eq_Nil_conv)
    then have "\<not> isspace (hd (dropWhile isspace s))"
      by (rule hd_dropWhile)
    moreover have "hd (dropWhile isspace s) \<in> set (dropWhile isspace s)"
      using ne by (rule hd_in_set)
    ultimately show False
      using all by blast
  qed
next
  assume "\<forall>c \<in> set s. isspace c"
  then have e: "dropWhile isspace s = []"
    by (simp add: dropWhile_eq_Nil_conv)
  show "strip s = []"
    unfolding strip_def e by simp
qed

lemma has_text_iff: "has_text s \<longleftrightarrow> (\<exists>c \<in> set s. \<not> isspace c)"
  by (simp add: has_text_def strip_empty_iff)

lemma alternatives_sep: "alternatives '' | '' = ['' '', '' '']"
  by simp

lemma match_len_space:
  "match_len ['' '', '' ''] (c # cs) = (if c = CHR '' '' then Some 1 else None)"
  by (simp add: startswith_def)

lemma re_split_space_first:
  "str_first (re_split ['' '', '' ''] piece s) = Some (piece @ takeWhile (\<lambda>c. c \<noteq> CHR '' '') s)"
proof (induction s arbitrary: piece)
  case Nil
  then show ?case by (simp add: str_first_def)
next
  case (Cons c cs)
  then show ?case
    by (simp add: match_len_space str_first_def del: match_len.simps)
qed

lemma first_website_takeWhile: "first_website s = takeWhile (\<lambda>c. c \<noteq> CHR '' '') s"
proof -
  have "str_split '' | '' s = re_split ['' '', '' ''] [] s"
    unfolding str_split_def alternatives_sep by simp
  then show ?thesis
    by (simp add: first_website_def re_split_space_first fillna_def)
qed

lemma first_website_agrees:
  "CHR '' '' \<notin> set (spec_first_segment '' | '' s) \<Longrightarrow>
   first_website s = spec_first_segment '' | '' s"
  unfolding first_website_takeWhile
  by (induction s) (auto simp: startswith_def split: if_splits)

lemma enrich_columns:
  "Has_website (enrich r) = has_text (Official_websites r)"
  "Has_license (enrich r) = has_text (Licenses r)"
  "Official_website (enrich r) = first_website (Official_websites r)"
  "Part_of (enrich r) = Part_of r"
  "Item (enrich r) = Item r"
  by (simp_all add: enrich_def)


text \<open>
  The rest of the claim holds: the flag is set exactly for a value with a character that
  is not white space, and the claim's own example comes out as it says.
\<close>

lemma has_website_examples:
  "\<not> has_text '' ''" "has_text ''http://x | http://y''"
  "first_website ''http://x | http://y'' = ''http://x''"
  "spec_first_segment '' | '' ''http://x | http://y'' = ''http://x''"
  "first_website [] = []"
  by (simp_all add: has_text_iff isspace_def first_website_takeWhile startswith_def)

section \<open>Properties of the column selection\<close>

lemma select_cols_all:
  assumes "\<forall>c \<in> set desired. map_of cols c \<noteq> None"
  shows "map fst (select_cols desired cols) = desired"
  using assms by (induction desired) (auto simp: select_cols_def)

lemma drop_cols_none:
  assumes "set (map fst cols) \<inter> set names = {}"
  shows "drop_cols names cols = cols"
  using assms by (auto simp: drop_cols_def filter_id_conv)

lemma show_software_columns: "map fst (show_software r) = SOFTWARE_COLS"
proof -
  have a: "map fst (select_cols SOFTWARE_COLS (columns Date r)) = SOFTWARE_COLS"
    by (rule select_cols_all) (simp add: SOFTWARE_COLS_def columns_def)
  have "set SOFTWARE_COLS \<inter> set HELPER_COLS = {}"
    by (simp add: SOFTWARE_COLS_def HELPER_COLS_def)
  with a show ?thesis
    by (simp add: show_software_def drop_cols_none)
qed

lemma show_ontology_columns: "map fst (show_ontology r) = ONTOLOGY_COLS"
proof -
  have a: "map fst (select_cols ONTOLOGY_COLS (columns Str r)) = ONTOLOGY_COLS"
    by (rule select_cols_all) (simp add: ONTOLOGY_COLS_def columns_def)
  have "set ONTOLOGY_COLS \<inter> set HELPER_COLS = {}"
    by (simp add: ONTOLOGY_COLS_def HELPER_COLS_def)
  with a show ?thesis
    by (simp add: show_ontology_def drop_cols_none)
qed

lemma show_software_no_part_of: "map_of (show_software r) ''Part of'' = None"
proof -
  have "''Part of'' \<notin> set (map fst (show_software r))"
    unfolding show_software_columns by (simp add: SOFTWARE_COLS_def)
  then show ?thesis
    by (simp add: map_of_eq_None_iff)
qed

lemma show_ontology_part_of: "map_of (show_ontology r) ''Part of'' = Some (Str (Part_of r))"
  by (simp add: show_ontology_def drop_cols_def select_cols_def ONTOLOGY_COLS_def
      HELPER_COLS_def columns_def)

lemma length_parse_release:
  "parse_release to_datetime df = Inr dated_df \<Longrightarrow> length dated_df = length df"
  by (auto simp: parse_release_def split: sum.splits)

lemma mset_sort_ontology: "mset (sort_ontology df) = mset df"
  by (simp add: sort_ontology_def)

lemma mset_sort_software: "mset (sort_software df) = mset df"
  by (simp add: sort_software_def)

text \<open>
  Claim C8, as the code has it.  The flattener has no notion of the domain: whatever
  query was sent, the record's \<open>Part of\<close> is the row's \<open>partOf\<close> value (the empty
  string for a row without one), and the software query selects \<open>?partOf\<close>.  What the
  software page lacks is the
  column: its rows have exactly the columns \<open>Item\<close>, \<open>latest release\<close>, \<open>Licenses\<close>,
  \<open>Official website\<close> and \<open>Wikidata page\<close>, so none has a \<open>Part of\<close>, while the rows
  of the other page show the \<open>Part of\<close> of the records, each record once.
\<close>

theorem part_of_dropped_by_column_selection:
  "(make_row b = Inr r \<longrightarrow>
      Part_of r = dict_get (dict_get b ''partOf'' Map.empty) ''value'' [] \<and>
      (b ''partOf'' = None \<longrightarrow> Part_of r = []) \<and>
      (b ''partOf'' = Some labels \<and> labels ''value'' = Some v \<longrightarrow> Part_of r = v)) \<and>
   (BASE_QUERY_SOFTWARE LIMIT = Inr text \<longrightarrow> (\<exists>pre post. text = pre @ PART_OF_SELECT @ post)) \<and>
   (startswith RESOURCE_KIND ''Software'' \<and> render to_datetime RESOURCE_KIND df = Inr table \<longrightarrow>
      length table = length df \<and>
      (\<forall>shown \<in> set table. map fst shown = SOFTWARE_COLS \<and> map_of shown ''Part of'' = None)) \<and>
   (\<not> startswith RESOURCE_KIND ''Software'' \<and> render to_datetime RESOURCE_KIND df = Inr table \<longrightarrow>
      map (\<lambda>shown. map_of shown ''Part of'') table =
        map (\<lambda>r. Some (Str (Part_of r))) (sort_ontology (map enrich df)) \<and>
      mset (map (\<lambda>shown. map_of shown ''Part of'') table) =
        mset (map (\<lambda>r. Some (Str (Part_of r))) df))"
proof (intro conjI impI)
  assume "make_row b = Inr r"
  then show "Part_of r = dict_get (dict_get b ''partOf'' Map.empty) ''value'' []"
    by (rule make_row_fields)
next
  assume "make_row b = Inr r" and "b ''partOf'' = None"
  then show "Part_of r = []"
    by (simp add: make_row_fields(3) dict_get_def)
next
  assume "make_row b = Inr r" and "b ''partOf'' = Some labels \<and> labels ''value'' = Some v"
  then show "Part_of r = v"
    by (simp add: make_row_fields(3) dict_get_def)
next
  assume "BASE_QUERY_SOFTWARE LIMIT = Inr text"
  then show "\<exists>pre post. text = pre @ PART_OF_SELECT @ post"
    by (rule software_query_selects_part_of)
next
  assume h: "startswith RESOURCE_KIND ''Software'' \<and>
    render to_datetime RESOURCE_KIND df = Inr table"
  then obtain dated_df where p: "parse_release to_datetime (map enrich df) = Inr dated_df"
    and t: "table = map show_software (sort_software dated_df)"
    by (auto simp: render_def split: if_splits sum.splits)
  have "length (sort_software dated_df) = length dated_df"
    by (simp add: sort_software_def)
  with t length_parse_release [OF p] show "length table = length df"
    by simp
  from t show "\<forall>shown \<in> set table. map fst shown = SOFTWARE_COLS \<and>
      map_of shown ''Part of'' = None"
    by (auto simp: show_software_columns show_software_no_part_of)
next
  assume h: "\<not> startswith RESOURCE_KIND ''Software'' \<and>
    render to_datetime RESOURCE_KIND df = Inr table"
  then have t: "table = map show_ontology (sort_ontology (map enrich df))"
    by (auto simp: render_def split: if_splits)
  then show eq: "map (\<lambda>shown. map_of shown ''Part of'') table =
        map (\<lambda>r. Some (Str (Part_of r))) (sort_ontology (map enrich df))"
    by (simp add: show_ontology_part_of)
  have "mset (map (\<lambda>r. Some (Str (Part_of r))) (sort_ontology (map enrich df))) =
    mset (map (\<lambda>r. Some (Str (Part_of r))) (map enrich df))"
    using mset_sort_ontology [of "map enrich df"] by (metis mset_map)
  also have "map (\<lambda>r. Some (Str (Part_of r))) (map enrich df) =
    map (\<lambda>r. Some (Str (Part_of r))) df"
    by (simp add: enrich_columns)
  finally show "mset (map (\<lambda>shown. map_of shown ''Part of'') table) =
        mset (map (\<lambda>r. Some (Str (Part_of r))) df)"
    using eq by simp
qed

lemma render_software_protege:
  "render no_dates SOFTWARE [protege_row] =
     Inr [[(''Item'', Str ''Protege''), (''latest release'', Date NaT), (''Licenses'', Str []),
           (''Official website'', Str []),
           (''Wikidata page'', Str ''http://www.wikidata.org/entity/Q2066865'')]]"
  by (simp add: render_def kinds_start parse_release_def no_dates_def with_release_def
      enrich_def protege_row_def sort_software_def show_software_def drop_cols_def
      select_cols_def SOFTWARE_COLS_def HELPER_COLS_def columns_def has_text_iff
      first_website_takeWhile)

lemma render_ontology_protege:
  "render no_dates ONTOLOGIES [protege_row] =
     Inr [[(''Item'', Str ''Protege''), (''Licenses'', Str []),
           (''Official website'', Str []),
           (''Wikidata page'', Str ''http://www.wikidata.org/entity/Q2066865''),
           (''Part of'', Str ''Semantic Web'')]]"
  by (simp add: render_def kinds_start enrich_def protege_row_def sort_ontology_def
      show_ontology_def drop_cols_def select_cols_def ONTOLOGY_COLS_def HELPER_COLS_def
      columns_def has_text_iff first_website_takeWhile)

lemma software_query_500_text:
  "BASE_QUERY_SOFTWARE 500 =
     Inr (py_join [CHR 0x0A] (software_head @ [''    LIMIT 500''] @ software_tail))"
  using software_query_500 by (simp add: query_def kinds_start)

theorem part_of_dropped_by_column_selection_witness:
  "make_row protege = Inr protege_row \<and> Part_of protege_row = ''Semantic Web'' \<and>
   protege ''partOf'' = Some [''value'' \<mapsto> ''Semantic Web''] \<and>
   foaf ''partOf'' = None \<and> Part_of (projr (make_row foaf)) = [] \<and>
   (\<exists>pre post. py_join [CHR 0x0A] (software_head @ [''    LIMIT 500''] @ software_tail) =
      pre @ PART_OF_SELECT @ post) \<and>
   startswith SOFTWARE ''Software'' \<and> \<not> startswith ONTOLOGIES ''Software'' \<and>
   map (\<lambda>shown. map_of shown ''Part of'') (projr (render no_dates SOFTWARE [protege_row])) =
     [None] \<and>
   map (\<lambda>shown. map_of shown ''Part of'') (projr (render no_dates ONTOLOGIES [protege_row])) =
     [Some (Str ''Semantic Web'')]"
proof -
  have po: "protege ''partOf'' = Some [''value'' \<mapsto> ''Semantic Web'']"
    by (simp add: protege_def)
  have a: "Part_of protege_row = ''Semantic Web''"
    using part_of_dropped_by_column_selection [of protege protege_row
        "[''value'' \<mapsto> ''Semantic Web'']" "''Semantic Web''", THEN conjunct1]
      make_row_protege po
    by (auto simp: dict_get_def)
  have fo: "foaf ''partOf'' = None"
    by (simp add: foaf_def)
  have f: "Part_of (projr (make_row foaf)) = []"
    using part_of_dropped_by_column_selection [of foaf "projr (make_row foaf)"] fo
    by (simp add: make_row_foaf)
  have b: "sort_ontology (map enrich [protege_row]) = [enrich protege_row]"
    by (simp add: sort_ontology_def)
  have c: "\<exists>pre post. py_join [CHR 0x0A] (software_head @ [''    LIMIT 500''] @ software_tail) =
      pre @ PART_OF_SELECT @ post"
    using part_of_dropped_by_column_selection [of protege protege_row _ _ 500
        "py_join [CHR 0x0A] (software_head @ [''    LIMIT 500''] @ software_tail)"]
      software_query_500_text by blast
  have "\<forall>shown \<in> set (projr (render no_dates SOFTWARE [protege_row])).
      map_of shown ''Part of'' = None"
    using part_of_dropped_by_column_selection [of protege protege_row _ _ _ _ SOFTWARE no_dates
        "[protege_row]" "projr (render no_dates SOFTWARE [protege_row])"]
    by (simp add: kinds_start render_software_protege)
  then have d: "map (\<lambda>shown. map_of shown ''Part of'')
      (projr (render no_dates SOFTWARE [protege_row])) = [None]"
    by (simp add: render_software_protege)
  have e: "map (\<lambda>shown. map_of shown ''Part of'')
      (projr (render no_dates ONTOLOGIES [protege_row])) = [Some (Str ''Semantic Web'')]"
    using part_of_dropped_by_column_selection [of protege protege_row _ _ _ _ ONTOLOGIES no_dates
        "[protege_row]" "projr (render no_dates ONTOLOGIES [protege_row])"] a b
    by (simp add: kinds_start render_ontology_protege enrich_columns)
  show ?thesis
    using make_row_protege po fo f a c d e by (simp add: kinds_start)
qed

text \<open>
  The claim as the specification words it fails for a piece of software that is part of
  something: the software query is sent with the slider at 500, the service answers with
  one row that has a \<open>partOf\<close> value, and the flattened record carries that value.
\<close>

theorem software_part_of_counterexample:
  "startswith SOFTWARE ''Software'' \<and>
   (case query SOFTWARE 500 of
      Inl e \<Rightarrow> Inl e
    | Inr q \<Rightarrow> map_sum id (map Part_of) (query_to_df (always (ok_response [protege])) awake q))
   = Inr [''Semantic Web'']"
proof -
  have "query_to_df (always (ok_response [protege])) awake q = append_rows [] [protege]" for q
    by (rule query_to_df_ok [of _ _ "ok_response [protege]"
          "[''results'' \<mapsto> [''bindings'' \<mapsto> [protege]]]" "[''bindings'' \<mapsto> [protege]]"])
      (simp_all add: always_def ok_response_def)
  then show ?thesis
    by (simp add: software_query_500 kinds_start make_row_protege protege_row_def)
qed

section \<open>Properties of the sorting\<close>

subsection \<open>Stable sorts, one column after the other, sort by the whole key\<close>

lemma sorted_lex_pair:
  assumes "sorted (map f xs)"
    and "\<And>k. sorted (map g (filter (\<lambda>x. f x = k) xs))"
  shows "sorted (map (\<lambda>x. (f x, g x)) xs)"
  using assms
proof (induction xs)
  case Nil
  then show ?case by simp
next
  case (Cons x xs)
  have tail: "sorted (map g (filter (\<lambda>y. f y = k) xs))" for k
    using Cons.prems(2) [of k] by (cases "f x = k") simp_all
  have rest: "sorted (map (\<lambda>x. (f x, g x)) xs)"
    using Cons.IH Cons.prems(1) tail by simp
  have "(f x, g x) \<le> (f y, g y)" if y: "y \<in> set xs" for y
  proof (cases "f x = f y")
    case True
    have "sorted (map g (x # filter (\<lambda>z. f z = f x) xs))"
      using Cons.prems(2) [of "f x"] by simp
    moreover have "y \<in> set (filter (\<lambda>z. f z = f x) xs)"
      using y True by simp
    ultimately have "g x \<le> g y"
      by auto
    with True show ?thesis by simp
  next
    case False
    moreover have "f x \<le> f y"
      using Cons.prems(1) y by simp
    ultimately have "f x < f y"
      by (simp add: less_le)
    then show ?thesis by simp
  qed
  with rest show ?case by simp
qed

lemma two_passes:
  "sort_key f (sort_key g xs) = sort_key (\<lambda>x. (f x, g x)) xs"
proof (rule sym, rule properties_for_sort_key)
  show "mset (sort_key f (sort_key g xs)) = mset xs"
    by simp
next
  fix k
  have "filter (\<lambda>x. (f k, g k) = (f x, g x)) (sort_key f (sort_key g xs)) =
    filter (\<lambda>x. g x = g k) (filter (\<lambda>x. f x = f k) (sort_key f (sort_key g xs)))"
    by (simp add: conj_commute eq_commute)
  also have "\<dots> = filter (\<lambda>x. g x = g k) (filter (\<lambda>x. f x = f k) (sort_key g xs))"
    by (simp only: sort_key_stable)
  also have "\<dots> = filter (\<lambda>x. f x = f k) (filter (\<lambda>x. g x = g k) (sort_key g xs))"
    by (simp add: conj_commute)
  also have "\<dots> = filter (\<lambda>x. f x = f k) (filter (\<lambda>x. g x = g k) xs)"
    by (simp only: sort_key_stable)
  also have "\<dots> = filter (\<lambda>x. (f k, g k) = (f x, g x)) xs"
    by (simp add: conj_commute eq_commute)
  finally show "filter (\<lambda>x. (f k, g k) = (f x, g x)) (sort_key f (sort_key g xs)) =
    filter (\<lambda>x. (f k, g k) = (f x, g x)) xs" .
next
  show "sorted (map (\<lambda>x. (f x, g x)) (sort_key f (sort_key g xs)))"
  proof (rule sorted_lex_pair)
    show "sorted (map f (sort_key f (sort_key g xs)))"
      by simp
  next
    fix k
    have "sorted (map g (filter (\<lambda>x. f x = k) (sort_key g xs)))"
      by (rule sorted_filter) simp
    then show "sorted (map g (filter (\<lambda>x. f x = k) (sort_key f (sort_key g xs))))"
      by (simp only: sort_key_stable)
  qed
qed

lemma sort_ontology_key: "sort_ontology df = sort_key ontology_key df"
  unfolding sort_ontology_def two_passes by (simp add: ontology_key_def [abs_def])

lemma sort_software_key: "sort_software df = sort_key software_key df"
  unfolding sort_software_def two_passes by (simp add: software_key_def [abs_def])

subsection \<open>The keys order the rows as the specification says\<close>

lemma ontology_key_le: "ontology_key r \<le> ontology_key s \<longleftrightarrow> spec_ontology_order r s"
  by (auto simp: ontology_key_def spec_ontology_order_def descending_def)

lemma newest_first_less: "newest_first t < newest_first u \<longleftrightarrow> newer t u"
  by (auto simp: newest_first_def newer_def split: timestamp.splits)

lemma newest_first_eq: "newest_first t = newest_first u \<longleftrightarrow> t = u"
  by (auto simp: newest_first_def split: timestamp.splits)

lemma software_key_le: "software_key r \<le> software_key s \<longleftrightarrow> spec_software_order r s"
proof -
  have "software_key r = (newest_first (latest_release r), ontology_key r)" for r
    by (simp add: software_key_def ontology_key_def)
  then have "software_key r \<le> software_key s \<longleftrightarrow>
    newest_first (latest_release r) < newest_first (latest_release s) \<or>
    newest_first (latest_release r) = newest_first (latest_release s) \<and>
    ontology_key r \<le> ontology_key s"
    by (auto simp: less_le)
  then show ?thesis
    by (simp add: newest_first_less newest_first_eq ontology_key_le spec_software_order_def)
qed

lemma ontology_key_eq: "ontology_key r = ontology_key s \<longleftrightarrow> ontology_tie r s"
  by (auto simp: ontology_key_def ontology_tie_def descending_def split: if_splits)

lemma software_key_eq: "software_key r = software_key s \<longleftrightarrow> software_tie r s"
proof -
  have "software_key r = (newest_first (latest_release r), ontology_key r)" for r
    by (simp add: software_key_def ontology_key_def)
  then show ?thesis
    by (simp add: newest_first_eq ontology_key_eq software_tie_def)
qed

lemma sorted_software: "sorted_wrt spec_software_order (sort_software df)"
proof -
  have "sorted (map software_key (sort_software df))"
    by (simp add: sort_software_key)
  then show ?thesis
    by (simp add: sorted_map software_key_le)
qed

lemma sorted_ontology: "sorted_wrt spec_ontology_order (sort_ontology df)"
proof -
  have "sorted (map ontology_key (sort_ontology df))"
    by (simp add: sort_ontology_key)
  then show ?thesis
    by (simp add: sorted_map ontology_key_le)
qed

lemma stable_software:
  "filter (software_tie x) (sort_software df) = filter (software_tie x) df"
proof -
  have "filter (\<lambda>y. software_key y = software_key x) (sort_software df) =
    filter (\<lambda>y. software_key y = software_key x) df"
    unfolding sort_software_key by (rule sort_key_stable)
  moreover have "(\<lambda>y. software_key y = software_key x) = software_tie x"
    by (auto simp: software_key_eq [symmetric])
  ultimately show ?thesis by simp
qed

lemma stable_ontology:
  "filter (ontology_tie x) (sort_ontology df) = filter (ontology_tie x) df"
proof -
  have "filter (\<lambda>y. ontology_key y = ontology_key x) (sort_ontology df) =
    filter (\<lambda>y. ontology_key y = ontology_key x) df"
    unfolding sort_ontology_key by (rule sort_key_stable)
  moreover have "(\<lambda>y. ontology_key y = ontology_key x) = ontology_tie x"
    by (auto simp: ontology_key_eq [symmetric])
  ultimately show ?thesis by simp
qed

lemma three_dates:
  assumes "latest_release r1 = Timestamp a" "latest_release r2 = NaT"
    "latest_release r3 = Timestamp b" "a < b"
  shows "sort_software [r1, r2, r3] = [r3, r1, r2]"
proof -
  have k: "software_key r3 < software_key r1" "software_key r1 < software_key r2"
    "software_key r3 < software_key r2"
    using assms by (simp_all add: software_key_def newest_first_def)
  then have "\<not> software_key r2 \<le> software_key r3" "\<not> software_key r1 \<le> software_key r3"
    "software_key r1 \<le> software_key r2"
    by (simp_all add: not_le less_imp_le)
  then show ?thesis
    by (simp add: sort_software_key)
qed

lemma show_software_release:
  "map_of (show_software r) ''latest release'' = Some (Date (latest_release r))"
  by (simp add: show_software_def drop_cols_def select_cols_def SOFTWARE_COLS_def
      HELPER_COLS_def columns_def)

lemma render_software:
  assumes "startswith RESOURCE_KIND ''Software''" "df \<noteq> []"
    "to_datetime (map latest_release (map enrich df)) = Inr reading"
  shows "render to_datetime RESOURCE_KIND df =
    Inr (map show_software
          (sort_software (map (\<lambda>e. with_release e (reading (latest_release e))) (map enrich df))))"
  using assms by (simp add: render_def parse_release_def)

text \<open>
  Claim C4.  The software table is the rows it was given, each once, in the order of the
  specification: later release dates first and rows without a date after every dated
  row, then rows with a website first, then rows with a licence first, then by name.
  Rows dated 2020-01-01, without a date and 2022-05-01, in that order, come out as
  2022-05-01, 2020-01-01, without a date.  The rows that are sorted for the software
  page are the rows of the frame with the release date that \<open>to_datetime\<close> read from
  their text.
\<close>

theorem software_sorted_newest_first:
  "mset (sort_software df) = mset df \<and>
   sorted_wrt spec_software_order (sort_software df) \<and>
   (i < j \<and> j < length df \<and> latest_release (sort_software df ! i) = NaT \<longrightarrow>
      latest_release (sort_software df ! j) = NaT) \<and>
   (latest_release r1 = Timestamp a \<and> latest_release r2 = NaT \<and>
    latest_release r3 = Timestamp b \<and> a < b \<longrightarrow>
      sort_software [r1, r2, r3] = [r3, r1, r2]) \<and>
   (startswith RESOURCE_KIND ''Software'' \<and> frame \<noteq> [] \<and>
    to_datetime (map latest_release (map enrich frame)) = Inr reading \<longrightarrow>
      render to_datetime RESOURCE_KIND frame =
        Inr (map show_software
              (sort_software
                (map (\<lambda>e. with_release e (reading (latest_release e))) (map enrich frame)))))"
proof (intro conjI impI)
  show "mset (sort_software df) = mset df"
    by (simp add: sort_software_def)
  show "sorted_wrt spec_software_order (sort_software df)"
    by (rule sorted_software)
next
  assume h: "i < j \<and> j < length df \<and> latest_release (sort_software df ! i) = NaT"
  have "length (sort_software df) = length df"
    by (simp add: sort_software_def)
  with h sorted_software [of df]
  have "spec_software_order (sort_software df ! i) (sort_software df ! j)"
    by (simp add: sorted_wrt_iff_nth_less)
  with h show "latest_release (sort_software df ! j) = NaT"
    by (auto simp: spec_software_order_def newer_def)
next
  assume "latest_release r1 = Timestamp a \<and> latest_release r2 = NaT \<and>
    latest_release r3 = Timestamp b \<and> a < b"
  then show "sort_software [r1, r2, r3] = [r3, r1, r2]"
    by (simp add: three_dates)
next
  assume "startswith RESOURCE_KIND ''Software'' \<and> frame \<noteq> [] \<and>
    to_datetime (map latest_release (map enrich frame)) = Inr reading"
  then show "render to_datetime RESOURCE_KIND frame =
        Inr (map show_software
              (sort_software
                (map (\<lambda>e. with_release e (reading (latest_release e))) (map enrich frame))))"
    by (simp add: render_software)
qed

theorem software_sorted_newest_first_witness:
  "startswith SOFTWARE ''Software'' \<and>
   map (\<lambda>shown. map_of shown ''latest release'')
     (projr (render iso_dates SOFTWARE
        [dated_row ''a'' ''2020-01-01T00:00:00Z'', dated_row ''b'' ''not a date'',
         dated_row ''c'' ''2022-05-01T00:00:00Z''])) =
     [Some (Date MAY_2022), Some (Date JAN_2020), Some (Date NaT)] \<and>
   map (\<lambda>shown. map_of shown ''Item'')
     (projr (render iso_dates SOFTWARE
        [dated_row ''a'' ''2020-01-01T00:00:00Z'', dated_row ''b'' ''not a date'',
         dated_row ''c'' ''2022-05-01T00:00:00Z''])) =
     [Some (Str ''c''), Some (Str ''a''), Some (Str ''b'')] \<and>
   latest_release
     (sort_software [release_row ''b'' ''u2'' NaT, release_row ''c'' ''u3'' MAY_2022,
                     release_row ''d'' ''u4'' NaT] ! 2) = NaT"
proof -
  let ?frame = "[dated_row ''a'' ''2020-01-01T00:00:00Z'', dated_row ''b'' ''not a date'',
    dated_row ''c'' ''2022-05-01T00:00:00Z'']"
  let ?reading = "\<lambda>s. if s = ''2020-01-01T00:00:00Z'' then JAN_2020
    else if s = ''2022-05-01T00:00:00Z'' then MAY_2022 else NaT"
  let ?a = "with_release (enrich (dated_row ''a'' ''2020-01-01T00:00:00Z'')) JAN_2020"
  let ?b = "with_release (enrich (dated_row ''b'' ''not a date'')) NaT"
  let ?c = "with_release (enrich (dated_row ''c'' ''2022-05-01T00:00:00Z'')) MAY_2022"
  have rd: "iso_dates (map latest_release (map enrich ?frame)) = Inr ?reading"
    by (simp add: iso_dates_def)
  have dated: "map (\<lambda>e. with_release e (?reading (latest_release e))) (map enrich ?frame) =
    [?a, ?b, ?c]"
    by (simp add: enrich_def dated_row_def)
  have dates: "latest_release ?a = Timestamp 1577836800000000000" "latest_release ?b = NaT"
    "latest_release ?c = Timestamp 1651363200000000000"
    by (simp_all add: with_release_def JAN_2020_def MAY_2022_def)
  have names: "Item ?a = ''a''" "Item ?b = ''b''" "Item ?c = ''c''"
    by (simp_all add: with_release_def enrich_def dated_row_def)
  have order: "sort_software [?a, ?b, ?c] = [?c, ?a, ?b]"
    using software_sorted_newest_first [of "[]" 0 0 ?a 1577836800000000000 ?b ?c
        1651363200000000000] dates
    by simp
  have "render iso_dates SOFTWARE ?frame =
    Inr (map show_software
          (sort_software
            (map (\<lambda>e. with_release e (?reading (latest_release e))) (map enrich ?frame))))"
    using software_sorted_newest_first [of "[]" 0 0 _ _ _ _ _ SOFTWARE ?frame iso_dates ?reading]
      rd kinds_start(3)
    by simp
  then have shown: "render iso_dates SOFTWARE ?frame = Inr (map show_software [?c, ?a, ?b])"
    by (simp only: dated order)
  have "map_of (show_software e) ''Item'' = Some (Str (Item e))" for e
    by (simp add: show_software_def drop_cols_def select_cols_def SOFTWARE_COLS_def
        HELPER_COLS_def columns_def)
  with shown have table: "map (\<lambda>shown. map_of shown ''latest release'')
      (projr (render iso_dates SOFTWARE ?frame)) =
      [Some (Date MAY_2022), Some (Date JAN_2020), Some (Date NaT)]"
    "map (\<lambda>shown. map_of shown ''Item'') (projr (render iso_dates SOFTWARE ?frame)) =
      [Some (Str ''c''), Some (Str ''a''), Some (Str ''b'')]"
    using dates names by (simp_all add: show_software_release JAN_2020_def MAY_2022_def)
  let ?x = "release_row ''b'' ''u2'' NaT :: timestamp enriched"
  let ?y = "release_row ''c'' ''u3'' MAY_2022"
  let ?z = "release_row ''d'' ''u4'' NaT :: timestamp enriched"
  have k: "software_key ?y < software_key ?x" "software_key ?x < software_key ?z"
    "software_key ?y < software_key ?z"
    by (simp_all add: software_key_def newest_first_def release_row_def MAY_2022_def
        descending_def)
  then have "\<not> software_key ?x \<le> software_key ?y" "software_key ?y \<le> software_key ?z"
    "software_key ?x \<le> software_key ?z"
    by (simp_all add: not_le less_imp_le)
  then have "sort_software [?x, ?y, ?z] = [?y, ?x, ?z]"
    by (simp add: sort_software_key)
  then have "latest_release (sort_software [?x, ?y, ?z] ! 1) = NaT"
    by (simp add: release_row_def)
  then have "latest_release (sort_software [?x, ?y, ?z] ! 2) = NaT"
    using software_sorted_newest_first [of "[?x, ?y, ?z]" 1 2]
    by simp
  with table show ?thesis
    by (simp add: kinds_start)
qed

text \<open>
  Claim C7.  Both sorts are stable: the rows that tie with a given row on every column
  of the order (date, website, licence and name for software; website, licence and name
  otherwise) stand in the sorted table in the order in which they stood before.  Both
  sorts return the rows they were given, each once, in the order of the specification.
\<close>

theorem sorting_is_stable:
  "filter (software_tie x) (sort_software df) = filter (software_tie x) df \<and>
   mset (sort_software df) = mset df \<and>
   sorted_wrt spec_software_order (sort_software df) \<and>
   filter (ontology_tie y) (sort_ontology frame) = filter (ontology_tie y) frame \<and>
   mset (sort_ontology frame) = mset frame \<and>
   sorted_wrt spec_ontology_order (sort_ontology frame)"
proof (intro conjI)
  show "filter (software_tie x) (sort_software df) = filter (software_tie x) df"
    by (rule stable_software)
  show "mset (sort_software df) = mset df"
    by (simp add: sort_software_def)
  show "sorted_wrt spec_software_order (sort_software df)"
    by (rule sorted_software)
  show "filter (ontology_tie y) (sort_ontology frame) = filter (ontology_tie y) frame"
    by (rule stable_ontology)
  show "mset (sort_ontology frame) = mset frame"
    by (simp add: sort_ontology_def)
  show "sorted_wrt spec_ontology_order (sort_ontology frame)"
    by (rule sorted_ontology)
qed

theorem sorting_is_stable_witness:
  "software_tie (release_row ''a'' ''u1'' JAN_2020) (release_row ''a'' ''u2'' JAN_2020) \<and>
   filter (software_tie (release_row ''a'' ''u1'' JAN_2020))
     (sort_software [release_row ''a'' ''u1'' JAN_2020, release_row ''c'' ''u3'' MAY_2022,
                     release_row ''a'' ''u2'' JAN_2020]) =
     [release_row ''a'' ''u1'' JAN_2020, release_row ''a'' ''u2'' JAN_2020] \<and>
   filter (ontology_tie (release_row ''a'' ''u1'' ''x''))
     (sort_ontology [release_row ''b'' ''u0'' ''x'', release_row ''a'' ''u1'' ''x'',
                     release_row ''a'' ''u2'' ''y'']) =
     [release_row ''a'' ''u1'' ''x'', release_row ''a'' ''u2'' ''y'']"
proof -
  have "software_tie (release_row ''a'' ''u1'' JAN_2020) (release_row ''a'' ''u2'' JAN_2020)"
    by (simp add: software_tie_def ontology_tie_def release_row_def)
  moreover have "filter (software_tie (release_row ''a'' ''u1'' JAN_2020))
     [release_row ''a'' ''u1'' JAN_2020, release_row ''c'' ''u3'' MAY_2022,
      release_row ''a'' ''u2'' JAN_2020] =
     [release_row ''a'' ''u1'' JAN_2020, release_row ''a'' ''u2'' JAN_2020]"
    by (simp add: software_tie_def ontology_tie_def release_row_def JAN_2020_def MAY_2022_def)
  moreover have "filter (ontology_tie (release_row ''a'' ''u1'' ''x''))
     [release_row ''b'' ''u0'' ''x'', release_row ''a'' ''u1'' ''x'',
      release_row ''a'' ''u2'' ''y''] =
     [release_row ''a'' ''u1'' ''x'', release_row ''a'' ''u2'' ''y'']"
    by (simp add: ontology_tie_def release_row_def)
  ultimately show ?thesis
    using sorting_is_stable [of "release_row ''a'' ''u1'' JAN_2020"
        "[release_row ''a'' ''u1'' JAN_2020, release_row ''c'' ''u3'' MAY_2022,
          release_row ''a'' ''u2'' JAN_2020]"
        "release_row ''a'' ''u1'' ''x''"
        "[release_row ''b'' ''u0'' ''x'', release_row ''a'' ''u1'' ''x'',
          release_row ''a'' ''u2'' ''y'']"]
    by simp
qed

end
